theory Spec2Isabelle
  imports Complex_Main "HOL-Library.Multiset"
begin

section \<open>Python values and exceptions\<close>

text \<open>
  The exceptions that the modelled functions of \<^verbatim>\<open>app/main.py\<close> can raise or catch.
  \<open>OtherError\<close> stands for every exception class not named here (a network error of
  \<^verbatim>\<open>requests\<close>, a \<^verbatim>\<open>PermissionError\<close>, a \<^verbatim>\<open>UnicodeDecodeError\<close>, ...).
\<close>

datatype py_error =
    FileNotFoundError | JSONDecodeError | KeyError | TypeError | ValueError
  | IndexError | ZeroDivisionError | OverflowError | OtherError

text \<open>
  A Python \<^verbatim>\<open>float\<close> is an IEEE 754 binary64 number: a finite value (\<open>Finite 0\<close> is the
  positive zero), the negative zero, an infinity or a NaN.
\<close>

datatype pyfloat = Finite real | NegZero | PosInf | NegInf | NaN

text \<open>
  A value produced by \<^verbatim>\<open>json.load\<close> or \<^verbatim>\<open>r.json()\<close>: \<^verbatim>\<open>None\<close>, a bool, an \<^verbatim>\<open>int\<close> (a
  number written without fraction and exponent, of any size), a \<^verbatim>\<open>float\<close>, a \<^verbatim>\<open>str\<close>, a
  \<^verbatim>\<open>list\<close> or a \<^verbatim>\<open>dict\<close> (its items, keys distinct).
\<close>

datatype json =
    JNull | JBool bool | JInt int | JFloat pyfloat | JStr string
  | JArr "json list" | JObj "(string \<times> json) list"

text \<open>\<^verbatim>\<open>x[k]\<close> for a \<^verbatim>\<open>str\<close> key \<open>k\<close>.\<close>

fun getitem :: "json \<Rightarrow> string \<Rightarrow> py_error + json" where
  "getitem (JObj kvs) k = (case map_of kvs k of None \<Rightarrow> Inl KeyError | Some v \<Rightarrow> Inr v)"
| "getitem _ k = Inl TypeError"

text \<open>Iterating over a value: a list gives its elements, a dict its keys, a str its characters.\<close>

fun py_iter :: "json \<Rightarrow> py_error + json list" where
  "py_iter (JArr xs) = Inr xs"
| "py_iter (JObj kvs) = Inr (map (\<lambda>kv. JStr (fst kv)) kvs)"
| "py_iter (JStr s) = Inr (map (\<lambda>c. JStr [c]) s)"
| "py_iter _ = Inl TypeError"

section \<open>Floating point arithmetic\<close>

text \<open>Rounding to the nearest integer, ties to the even one.\<close>

definition round_half_even :: "real \<Rightarrow> int" where
  "round_half_even x =
     (let f = \<lfloor>x\<rfloor>; r = x - of_int f in
      if r < 1 / 2 then f else if 1 / 2 < r then f + 1 else if even f then f else f + 1)"

definition pow2 :: "int \<Rightarrow> real" where
  "pow2 e = (if 0 \<le> e then 2 ^ nat e else 1 / 2 ^ nat (- e))"

text \<open>
  The binary exponent of a magnitude \<open>m > 0\<close>: the \<open>e\<close> with \<open>2 ^ e \<le> m < 2 ^ (e + 1)\<close>,
  found by halving or doubling, and kept between the exponent of the subnormal numbers,
  -1022, and 1024, from where on every magnitude overflows.
\<close>

function binade_up :: "real \<Rightarrow> int \<Rightarrow> int" where
  "binade_up m e = (if m < 2 \<or> 1024 \<le> e then e else binade_up (m / 2) (e + 1))"
  by pat_completeness auto
termination
  by (relation "measure (\<lambda>(m, e). nat (1024 - e))") auto

function binade_down :: "real \<Rightarrow> int \<Rightarrow> int" where
  "binade_down m e = (if 1 \<le> m \<or> e \<le> - 1022 then e else binade_down (2 * m) (e - 1))"
  by pat_completeness auto
termination
  by (relation "measure (\<lambda>(m, e). nat (e + 1022))") auto

declare binade_up.simps [simp del] binade_down.simps [simp del]

definition exponent :: "real \<Rightarrow> int" where
  "exponent m =
     (if 2 ^ 1024 \<le> m then 1024 else if 1 \<le> m then binade_up m 0 else binade_down m 0)"

text \<open>
  The magnitude \<open>m \<ge> 0\<close> rounded to 53 significant bits, to the nearest, ties to even: the
  nearest multiple of the unit in the last place of its binade. A result of \<open>2 ^ 1024\<close> or
  more is an overflow.
\<close>

definition round_to_double :: "real \<Rightarrow> real" where
  "round_to_double m =
     (if m = 0 then 0
      else let ulp = pow2 (exponent m - 52) in of_int (round_half_even (m / ulp)) * ulp)"

definition signed_zero :: "bool \<Rightarrow> pyfloat" where
  "signed_zero negative = (if negative then NegZero else Finite 0)"

definition signed_inf :: "bool \<Rightarrow> pyfloat" where
  "signed_inf negative = (if negative then NegInf else PosInf)"

text \<open>
  The float nearest to a real number: the value of a decimal literal, and the result of an
  arithmetic operation whose exact result is that number, when it is not zero.
\<close>

definition double :: "real \<Rightarrow> pyfloat" where
  "double r =
     (let d = round_to_double \<bar>r\<bar> in
      if 2 ^ 1024 \<le> d then signed_inf (r < 0)
      else if d = 0 then signed_zero (r < 0)
      else Finite (if r < 0 then - d else d))"

fun sign_bit :: "pyfloat \<Rightarrow> bool" where
  "sign_bit (Finite v) = (v < 0)"
| "sign_bit NegZero = True"
| "sign_bit PosInf = False"
| "sign_bit NegInf = True"
| "sign_bit NaN = False"

fun value_of :: "pyfloat \<Rightarrow> real" where
  "value_of (Finite v) = v"
| "value_of _ = 0"

definition is_zero :: "pyfloat \<Rightarrow> bool" where
  "is_zero x = (x = Finite 0 \<or> x = NegZero)"

definition is_inf :: "pyfloat \<Rightarrow> bool" where
  "is_inf x = (x = PosInf \<or> x = NegInf)"

text \<open>\<^verbatim>\<open>a - b\<close>, \<^verbatim>\<open>a * b\<close> and \<^verbatim>\<open>a / b\<close> (for \<open>b\<close> other than zero) on floats.\<close>

definition float_sub :: "pyfloat \<Rightarrow> pyfloat \<Rightarrow> pyfloat" where
  "float_sub a b =
     (if a = NaN \<or> b = NaN then NaN
      else if is_inf a then (if is_inf b \<and> sign_bit a = sign_bit b then NaN else a)
      else if is_inf b then signed_inf (\<not> sign_bit b)
      else let r = value_of a - value_of b in
           if r = 0 then signed_zero (sign_bit a \<and> \<not> sign_bit b) else double r)"

definition float_mul :: "pyfloat \<Rightarrow> pyfloat \<Rightarrow> pyfloat" where
  "float_mul a b =
     (if a = NaN \<or> b = NaN then NaN
      else if is_inf a \<or> is_inf b then
        (if is_zero a \<or> is_zero b then NaN else signed_inf (sign_bit a \<noteq> sign_bit b))
      else let r = value_of a * value_of b in
           if r = 0 then signed_zero (sign_bit a \<noteq> sign_bit b) else double r)"

definition float_div :: "pyfloat \<Rightarrow> pyfloat \<Rightarrow> pyfloat" where
  "float_div a b =
     (if a = NaN \<or> b = NaN then NaN
      else if is_inf a then (if is_inf b then NaN else signed_inf (sign_bit a \<noteq> sign_bit b))
      else if is_inf b then signed_zero (sign_bit a \<noteq> sign_bit b)
      else let r = value_of a / value_of b in
           if r = 0 then signed_zero (sign_bit a \<noteq> sign_bit b) else double r)"

text \<open>True division \<^verbatim>\<open>a / b\<close> of two floats: a zero divisor of either sign raises.\<close>

definition float_truediv :: "pyfloat \<Rightarrow> pyfloat \<Rightarrow> py_error + pyfloat" where
  "float_truediv a b = (if is_zero b then Inl ZeroDivisionError else Inr (float_div a b))"

text \<open>\<^verbatim>\<open>a < b\<close>, \<^verbatim>\<open>- a\<close> and \<^verbatim>\<open>abs(a)\<close> on floats; a comparison with a NaN is false.\<close>

definition float_lt :: "pyfloat \<Rightarrow> pyfloat \<Rightarrow> bool" where
  "float_lt a b =
     (if a = NaN \<or> b = NaN then False
      else if a = PosInf \<or> b = NegInf then False
      else if a = NegInf \<or> b = PosInf then True
      else value_of a < value_of b)"

fun float_neg :: "pyfloat \<Rightarrow> pyfloat" where
  "float_neg (Finite v) = (if v = 0 then NegZero else Finite (- v))"
| "float_neg NegZero = Finite 0"
| "float_neg PosInf = NegInf"
| "float_neg NegInf = PosInf"
| "float_neg NaN = NaN"

fun float_abs :: "pyfloat \<Rightarrow> pyfloat" where
  "float_abs (Finite v) = Finite \<bar>v\<bar>"
| "float_abs NegZero = Finite 0"
| "float_abs PosInf = PosInf"
| "float_abs NegInf = PosInf"
| "float_abs NaN = NaN"

text \<open>
  \<^verbatim>\<open>round(x, n)\<close> of a float for \<open>n \<ge> 0\<close> decimal places: the value is rounded to \<open>n\<close>
  decimals, ties to even, and the float nearest to that decimal number is returned (with
  the sign of \<open>x\<close>, also for a zero); an infinity and a NaN round to themselves.
\<close>

fun float_round :: "pyfloat \<Rightarrow> nat \<Rightarrow> py_error + pyfloat" where
  "float_round (Finite v) n =
     (let d = round_to_double (of_int (round_half_even (\<bar>v\<bar> * 10 ^ n)) / 10 ^ n) in
      if 2 ^ 1024 \<le> d then Inl OverflowError
      else Inr (if d = 0 then signed_zero (v < 0) else Finite (if v < 0 then - d else d)))"
| "float_round x n = Inr x"

section \<open>Numbers\<close>

text \<open>A Python number: an \<^verbatim>\<open>int\<close> of any size, or a \<^verbatim>\<open>float\<close>.\<close>

datatype pynum = PyInt int | PyFloat pyfloat

text \<open>A value used as a number: \<^verbatim>\<open>bool\<close> is a subclass of \<^verbatim>\<open>int\<close>.\<close>

fun num_of :: "json \<Rightarrow> py_error + pynum" where
  "num_of (JInt n) = Inr (PyInt n)"
| "num_of (JFloat x) = Inr (PyFloat x)"
| "num_of (JBool b) = Inr (PyInt (if b then 1 else 0))"
| "num_of _ = Inl TypeError"

text \<open>
  The conversion of an \<^verbatim>\<open>int\<close> to the nearest float, which arithmetic applies to an \<^verbatim>\<open>int\<close>
  operand beside a \<^verbatim>\<open>float\<close> one: an \<^verbatim>\<open>int\<close> beyond the range of the floats raises.
\<close>

definition int_to_float :: "int \<Rightarrow> py_error + pyfloat" where
  "int_to_float n =
     (let d = round_to_double \<bar>of_int n\<bar> in
      if 2 ^ 1024 \<le> d then Inl OverflowError else Inr (Finite (if n < 0 then - d else d)))"

fun to_float :: "pynum \<Rightarrow> py_error + pyfloat" where
  "to_float (PyInt n) = int_to_float n"
| "to_float (PyFloat x) = Inr x"

text \<open>
  \<^verbatim>\<open>a - b\<close> of two values: exact on two \<^verbatim>\<open>int\<close>s, and on floats otherwise.
\<close>

definition py_sub :: "json \<Rightarrow> json \<Rightarrow> py_error + pynum" where
  "py_sub a b =
     (case num_of a of Inl e \<Rightarrow> Inl e
      | Inr x \<Rightarrow>
          (case num_of b of Inl e \<Rightarrow> Inl e
           | Inr y \<Rightarrow>
               (case (x, y) of
                  (PyInt i, PyInt j) \<Rightarrow> Inr (PyInt (i - j))
                | _ \<Rightarrow>
                    (case to_float x of Inl e \<Rightarrow> Inl e
                     | Inr fx \<Rightarrow>
                         (case to_float y of Inl e \<Rightarrow> Inl e
                          | Inr fy \<Rightarrow> Inr (PyFloat (float_sub fx fy)))))))"

text \<open>
  True division \<^verbatim>\<open>a / b\<close> of two \<^verbatim>\<open>int\<close>s: the float nearest to the exact quotient; a
  quotient beyond the range of the floats raises.
\<close>

definition int_truediv :: "int \<Rightarrow> int \<Rightarrow> py_error + pyfloat" where
  "int_truediv a b =
     (if b = 0 then Inl ZeroDivisionError
      else if a = 0 then Inr (signed_zero (b < 0))
      else let r = of_int a / of_int b; d = round_to_double \<bar>r\<bar> in
           if 2 ^ 1024 \<le> d then Inl OverflowError
           else Inr (if d = 0 then signed_zero (r < 0) else Finite (if r < 0 then - d else d)))"

text \<open>True division \<^verbatim>\<open>a / b\<close> of two numbers.\<close>

definition py_truediv :: "pynum \<Rightarrow> pynum \<Rightarrow> py_error + pyfloat" where
  "py_truediv a b =
     (case (a, b) of
        (PyInt i, PyInt j) \<Rightarrow> int_truediv i j
      | _ \<Rightarrow>
          (case to_float a of Inl e \<Rightarrow> Inl e
           | Inr fa \<Rightarrow>
               (case to_float b of Inl e \<Rightarrow> Inl e | Inr fb \<Rightarrow> float_truediv fa fb)))"

text \<open>\<^verbatim>\<open>round(x, n)\<close> of a value for \<open>n \<ge> 0\<close>: an \<^verbatim>\<open>int\<close> is returned as it is.\<close>

fun py_round :: "json \<Rightarrow> nat \<Rightarrow> py_error + json" where
  "py_round (JInt i) n = Inr (JInt i)"
| "py_round (JBool b) n = Inr (JInt (if b then 1 else 0))"
| "py_round (JFloat x) n = (case float_round x n of Inl e \<Rightarrow> Inl e | Inr y \<Rightarrow> Inr (JFloat y))"
| "py_round _ n = Inl TypeError"

section \<open>Strings\<close>

definition lower_char :: "char \<Rightarrow> char" where
  "lower_char c =
     (let n = (of_char c :: nat) in if 65 \<le> n \<and> n \<le> 90 then char_of (n + 32) else c)"

text \<open>\<^verbatim>\<open>str.lower()\<close>; the characters outside ASCII are left as they are.\<close>

definition lower :: "string \<Rightarrow> string" where
  "lower s = map lower_char s"

fun starts_with :: "string \<Rightarrow> string \<Rightarrow> bool" where
  "starts_with [] s = True"
| "starts_with (k # ks) [] = False"
| "starts_with (k # ks) (c # cs) = (k = c \<and> starts_with ks cs)"

text \<open>\<^verbatim>\<open>k in s\<close> for two strings: \<open>k\<close> occurs in \<open>s\<close> as a substring.\<close>

fun str_contains :: "string \<Rightarrow> string \<Rightarrow> bool" where
  "str_contains k [] = (k = [])"
| "str_contains k (c # cs) = (starts_with k (c # cs) \<or> str_contains k cs)"

text \<open>The decimal digits of a natural number.\<close>

definition digit_char :: "nat \<Rightarrow> char" where
  "digit_char d = char_of (48 + d)"

fun digits :: "nat \<Rightarrow> string" where
  "digits n = (if n < 10 then [digit_char n] else digits (n div 10) @ [digit_char (n mod 10)])"

declare digits.simps [simp del]

text \<open>
  The format \<^verbatim>\<open>{x:.nf}\<close> of a float for \<open>n \<ge> 1\<close>: the sign, the integer part, a point and
  exactly \<open>n\<close> decimals of the value rounded to \<open>n\<close> places, ties to even; an infinity
  and a NaN are written by name.
\<close>

fun float_format :: "nat \<Rightarrow> pyfloat \<Rightarrow> string" where
  "float_format n PosInf = ''inf''"
| "float_format n NegInf = ''-inf''"
| "float_format n NaN = ''nan''"
| "float_format n x =
     (let m = nat (round_half_even (\<bar>value_of x\<bar> * 10 ^ n));
          frac = digits (m mod 10 ^ n)
      in (if sign_bit x then ''-'' else []) @ digits (m div 10 ^ n) @ ''.''
           @ replicate (n - length frac) CHR ''0'' @ frac)"

section \<open>Query classifier\<close>

definition keyword_classify :: "string \<Rightarrow> string" where
  "keyword_classify question =
     (let q = lower question in
      if list_ex (\<lambda>k. str_contains k q) [''price'', ''rate'', ''current'', ''today'']
      then ''current_price''
      else if list_ex (\<lambda>k. str_contains k q) [''history'', ''past'', ''last'', ''trend'']
      then ''history''
      else if list_ex (\<lambda>k. str_contains k q) [''predict'', ''forecast'', ''future'', ''will'']
      then ''prediction''
      else ''general_info'')"

text \<open>
  A keyword substring match: the question, in lower case, contains one of the keywords.
\<close>

definition mentions :: "string list \<Rightarrow> string \<Rightarrow> bool" where
  "mentions keywords question =
     (\<exists>k \<in> set keywords. \<exists>before after. lower question = before @ k @ after)"

section \<open>Gold detector\<close>

text \<open>
  The regular expression is searched in a \<^verbatim>\<open>str\<close>, a sequence of Unicode code points.
  \<open>codepoints\<close> gives the code points of a text written in ASCII.
\<close>

definition codepoints :: "string \<Rightarrow> nat list" where
  "codepoints s = map of_char s"

text \<open>
  The fragment of regular expressions that \<^verbatim>\<open>_is_gold_by_keyword\<close> uses: an alternation
  of sequences of literal characters and \<^verbatim>\<open>\b\<close> assertions, matched with \<^verbatim>\<open>re.I\<close>.
\<close>

datatype atom = Lit nat | WordBoundary

text \<open>
  \<^verbatim>\<open>\w\<close> on a \<^verbatim>\<open>str\<close>: the underscore and every alphanumeric character. In ASCII these
  are the letters and the digits; for the code points above ASCII the table of the Unicode
  database, \<^verbatim>\<open>str.isalnum\<close>, is the parameter \<open>isalnum\<close>.
\<close>

definition is_word_char :: "(nat \<Rightarrow> bool) \<Rightarrow> nat \<Rightarrow> bool" where
  "is_word_char isalnum c =
     (if c < 128 then
        (48 \<le> c \<and> c \<le> 57) \<or> (65 \<le> c \<and> c \<le> 90) \<or> c = 95 \<or> (97 \<le> c \<and> c \<le> 122)
      else isalnum c)"

text \<open>
  A literal \<open>p\<close> of the pattern, a lower-case ASCII letter or a space, against the
  character \<open>c\<close> of the text, ignoring case: \<open>c\<close> is \<open>p\<close> or its upper-case letter, and
  the letter \<open>i\<close> is also matched by the dotted capital I (U+0130) and the dotless small i
  (U+0131).
\<close>

definition literal_matches :: "nat \<Rightarrow> nat \<Rightarrow> bool" where
  "literal_matches p c =
     (c = p \<or> (97 \<le> p \<and> p \<le> 122 \<and> c + 32 = p) \<or> (p = 105 \<and> (c = 304 \<or> c = 305)))"

text \<open>\<^verbatim>\<open>\b\<close> at position \<open>i\<close>: exactly one side of the position is a word character.\<close>

definition at_boundary :: "(nat \<Rightarrow> bool) \<Rightarrow> nat list \<Rightarrow> nat \<Rightarrow> bool" where
  "at_boundary isalnum s i =
     ((0 < i \<and> i \<le> length s \<and> is_word_char isalnum (s ! (i - 1)))
        \<noteq> (i < length s \<and> is_word_char isalnum (s ! i)))"

fun match_atoms :: "(nat \<Rightarrow> bool) \<Rightarrow> atom list \<Rightarrow> nat list \<Rightarrow> nat \<Rightarrow> bool" where
  "match_atoms isalnum [] s i = True"
| "match_atoms isalnum (WordBoundary # as) s i =
     (at_boundary isalnum s i \<and> match_atoms isalnum as s i)"
| "match_atoms isalnum (Lit p # as) s i =
     (i < length s \<and> literal_matches p (s ! i) \<and> match_atoms isalnum as s (Suc i))"

text \<open>\<^verbatim>\<open>bool(re.search(pattern, s, flags=re.I))\<close>: some alternative matches at some position.\<close>

definition re_search :: "(nat \<Rightarrow> bool) \<Rightarrow> atom list list \<Rightarrow> nat list \<Rightarrow> bool" where
  "re_search isalnum alts s =
     list_ex (\<lambda>i. list_ex (\<lambda>alt. match_atoms isalnum alt s i) alts) [0 ..< Suc (length s)]"

text \<open>The pattern \<^verbatim>\<open>\bgold\b|\bdigital gold\b|\bxau\b\<close>.\<close>

definition gold_pattern :: "atom list list" where
  "gold_pattern =
     [WordBoundary # map Lit (codepoints ''gold'') @ [WordBoundary],
      WordBoundary # map Lit (codepoints ''digital gold'') @ [WordBoundary],
      WordBoundary # map Lit (codepoints ''xau'') @ [WordBoundary]]"

definition is_gold_by_keyword :: "(nat \<Rightarrow> bool) \<Rightarrow> nat list \<Rightarrow> bool" where
  "is_gold_by_keyword isalnum question = re_search isalnum gold_pattern question"

text \<open>
  A whole-word occurrence of the lower-case word \<open>w\<close> in \<open>s\<close> at position \<open>i\<close>, ignoring
  case: the characters match, and no word character touches the occurrence on either side.
\<close>

definition whole_word_at :: "(nat \<Rightarrow> bool) \<Rightarrow> nat list \<Rightarrow> nat list \<Rightarrow> nat \<Rightarrow> bool" where
  "whole_word_at isalnum w s i =
     (i + length w \<le> length s \<and> list_all2 literal_matches w (take (length w) (drop i s))
      \<and> (i = 0 \<or> \<not> is_word_char isalnum (s ! (i - 1)))
      \<and> (i + length w = length s \<or> \<not> is_word_char isalnum (s ! (i + length w))))"

definition whole_word_match :: "(nat \<Rightarrow> bool) \<Rightarrow> string \<Rightarrow> nat list \<Rightarrow> bool" where
  "whole_word_match isalnum w s =
     list_ex (whole_word_at isalnum (codepoints w) s) [0 ..< Suc (length s)]"

section \<open>Backup price store\<close>

text \<open>
  A \<^verbatim>\<open>datetime\<close>: naive, or aware of its offset from UTC. \<open>instant\<close> is what a comparison
  of two datetimes of the same kind compares: the fields of a naive datetime, the point in
  UTC of an aware one, both taken in a linearly ordered type \<open>'d\<close>.
\<close>

datatype 'd datetime = Naive 'd | Aware 'd

fun instant :: "'d datetime \<Rightarrow> 'd" where
  "instant (Naive t) = t"
| "instant (Aware t) = t"

fun is_aware :: "'d datetime \<Rightarrow> bool" where
  "is_aware (Naive t) = False"
| "is_aware (Aware t) = True"

text \<open>
  The keys can be ordered when they are all naive or all aware; the comparison of a naive
  with an aware datetime raises \<^verbatim>\<open>TypeError\<close>.
\<close>

definition comparable :: "'d datetime list \<Rightarrow> bool" where
  "comparable ks = (list_all is_aware ks \<or> list_all (\<lambda>k. \<not> is_aware k) ks)"

text \<open>
  \<^verbatim>\<open>sorted(xs, key=f)\<close> for a key that is a \<^verbatim>\<open>datetime\<close>: the keys of all elements are
  computed first, in order (the first exception propagates), then the elements are sorted by
  key, stably. Sorting compares a naive with an aware key whenever both kinds are present.
\<close>

fun keys_of :: "(json \<Rightarrow> py_error + 'k) \<Rightarrow> json list \<Rightarrow> py_error + 'k list" where
  "keys_of f [] = Inr []"
| "keys_of f (x # xs) =
     (case f x of Inl e \<Rightarrow> Inl e
      | Inr k \<Rightarrow> (case keys_of f xs of Inl e \<Rightarrow> Inl e | Inr ks \<Rightarrow> Inr (k # ks)))"

definition py_sorted ::
  "(json \<Rightarrow> py_error + ('d::linorder) datetime) \<Rightarrow> json list \<Rightarrow> py_error + json list" where
  "py_sorted f xs =
     (case keys_of f xs of Inl e \<Rightarrow> Inl e
      | Inr ks \<Rightarrow>
          if comparable ks then Inr (map snd (sort_key (\<lambda>kx. instant (fst kx)) (zip ks xs)))
          else Inl TypeError)"

text \<open>
  The sort key \<^verbatim>\<open>lambda x: datetime.fromisoformat(x['date'])\<close>. The library function
  \<^verbatim>\<open>datetime.fromisoformat\<close> is a parameter: it maps a string to a datetime, or raises.
\<close>

definition date_key ::
  "(string \<Rightarrow> py_error + 'd datetime) \<Rightarrow> json \<Rightarrow> py_error + 'd datetime" where
  "date_key fromisoformat x =
     (case getitem x ''date'' of Inl e \<Rightarrow> Inl e
      | Inr v \<Rightarrow> (case v of JStr s \<Rightarrow> fromisoformat s | _ \<Rightarrow> Inl TypeError))"

text \<open>
  \<open>loaded\<close> is the outcome of opening \<^verbatim>\<open>gold_data_backup.json\<close> and of \<^verbatim>\<open>json.load\<close>:
  \<open>Inl FileNotFoundError\<close> for a missing file, \<open>Inl JSONDecodeError\<close> for text that is
  not JSON, \<open>Inl\<close> of another exception when the file cannot be opened or decoded as text,
  \<open>Inr data\<close> for the parsed content. The \<^verbatim>\<open>except\<close> clause covers the whole body and
  catches these two exception classes only.
\<close>

definition get_backup_gold_data ::
  "(string \<Rightarrow> py_error + ('d::linorder) datetime) \<Rightarrow> py_error + json
     \<Rightarrow> py_error + json list" where
  "get_backup_gold_data fromisoformat loaded =
     (let body =
        (case loaded of Inl e \<Rightarrow> Inl e
         | Inr data \<Rightarrow>
             (case py_iter data of Inl e \<Rightarrow> Inl e
              | Inr xs \<Rightarrow> py_sorted (date_key fromisoformat) xs))
      in case body of
           Inl e \<Rightarrow> if e = FileNotFoundError \<or> e = JSONDecodeError then Inr [] else Inl e
         | Inr r \<Rightarrow> Inr r)"

text \<open>
  An instance of \<^verbatim>\<open>datetime.fromisoformat\<close> on the date-only form \<^verbatim>\<open>YYYY-MM-DD\<close>: the
  naive datetime of that day, as the number \<open>10000 * year + 100 * month + day\<close>, whose order
  is the order of the dates. Every other string is rejected here.
\<close>

definition digit_val :: "char \<Rightarrow> nat option" where
  "digit_val c =
     (let n = (of_char c :: nat) in if 48 \<le> n \<and> n \<le> 57 then Some (n - 48) else None)"

fun number_of_digits :: "nat \<Rightarrow> string \<Rightarrow> nat option" where
  "number_of_digits acc [] = Some acc"
| "number_of_digits acc (c # cs) =
     (case digit_val c of None \<Rightarrow> None | Some d \<Rightarrow> number_of_digits (10 * acc + d) cs)"

definition days_in_month :: "nat \<Rightarrow> nat \<Rightarrow> nat" where
  "days_in_month y m =
     (if m = 2 then (if (y mod 4 = 0 \<and> y mod 100 \<noteq> 0) \<or> y mod 400 = 0 then 29 else 28)
      else if m = 4 \<or> m = 6 \<or> m = 9 \<or> m = 11 then 30 else 31)"

definition iso_date :: "string \<Rightarrow> py_error + nat datetime" where
  "iso_date s =
     (if length s = 10 \<and> s ! 4 = CHR ''-'' \<and> s ! 7 = CHR ''-'' then
        (case (number_of_digits 0 (take 4 s), number_of_digits 0 (take 2 (drop 5 s)),
               number_of_digits 0 (drop 8 s)) of
           (Some y, Some m, Some d) \<Rightarrow>
             if 1 \<le> y \<and> 1 \<le> m \<and> m \<le> 12 \<and> 1 \<le> d \<and> d \<le> days_in_month y m
             then Inr (Naive (10000 * y + 100 * m + d)) else Inl ValueError
         | _ \<Rightarrow> Inl ValueError)
      else Inl ValueError)"

section \<open>Live price fetcher\<close>

text \<open>\<^verbatim>\<open>k in data\<close> for a \<^verbatim>\<open>str\<close> \<open>k\<close>: a key of a dict, an element of a list, a substring of a str.\<close>

fun py_contains :: "json \<Rightarrow> string \<Rightarrow> py_error + bool" where
  "py_contains (JObj kvs) k = Inr (k \<in> set (map fst kvs))"
| "py_contains (JArr xs) k = Inr (JStr k \<in> set xs)"
| "py_contains (JStr s) k = Inr (str_contains k s)"
| "py_contains _ k = Inl TypeError"

text \<open>
  The body of the \<^verbatim>\<open>try\<close> block of \<^verbatim>\<open>get_live_gold_price\<close>. \<open>response\<close> is the outcome
  of the request, of \<^verbatim>\<open>raise_for_status\<close> and of \<^verbatim>\<open>r.json()\<close>. The result is the rounded
  price when the block returns, and \<open>None\<close> when it is left without a return: the field is
  missing, or an exception was raised and swallowed by \<^verbatim>\<open>except Exception: pass\<close>.
\<close>

definition try_live_price :: "py_error + json \<Rightarrow> json option" where
  "try_live_price response =
     (case response of Inl e \<Rightarrow> None
      | Inr data \<Rightarrow>
          (case py_contains data ''price_gram_24k'' of Inl e \<Rightarrow> None
           | Inr present \<Rightarrow>
               if present then
                 (case getitem data ''price_gram_24k'' of Inl e \<Rightarrow> None
                  | Inr v \<Rightarrow> (case py_round v 2 of Inl e \<Rightarrow> None | Inr p \<Rightarrow> Some p))
               else None))"

text \<open>\<^verbatim>\<open>GOLD_API_KEY\<close> is the result of \<^verbatim>\<open>os.getenv\<close>: \<^verbatim>\<open>None\<close> or a string, truthy when not empty.\<close>

definition api_key_present :: "string option \<Rightarrow> bool" where
  "api_key_present k = (case k of None \<Rightarrow> False | Some s \<Rightarrow> s \<noteq> [])"

definition get_live_gold_price ::
  "(string \<Rightarrow> py_error + ('d::linorder) datetime) \<Rightarrow> string option \<Rightarrow> py_error + json
     \<Rightarrow> py_error + json \<Rightarrow> py_error + json" where
  "get_live_gold_price fromisoformat GOLD_API_KEY response loaded =
     (case (if api_key_present GOLD_API_KEY then try_live_price response else None) of
        Some p \<Rightarrow>
          Inr (JObj [(''source'', JStr ''live''), (''current_price_inr_per_gram'', p)])
      | None \<Rightarrow>
          (case get_backup_gold_data fromisoformat loaded of Inl e \<Rightarrow> Inl e
           | Inr backup_data \<Rightarrow>
               if backup_data \<noteq> [] then
                 (case getitem (last backup_data) ''price'' of Inl e \<Rightarrow> Inl e
                  | Inr p \<Rightarrow>
                      Inr (JObj [(''source'', JStr ''backup''),
                                 (''current_price_inr_per_gram'', p)]))
               else
                 Inr (JObj [(''error'',
                   JStr ''Failed to fetch live gold price and backup is unavailable.'')])))"

section \<open>Trend analyzer\<close>

text \<open>
  The slice \<^verbatim>\<open>xs[i:]\<close>: a negative start counts from the end, and the start is clamped to
  the list.
\<close>

definition slice_from :: "'a list \<Rightarrow> int \<Rightarrow> 'a list" where
  "slice_from xs i =
     (let n = int (length xs); j = (if i < 0 then max 0 (n + i) else min i n)
      in drop (nat j) xs)"

text \<open>\<^verbatim>\<open>[entry['price'] for entry in entries]\<close>: the first failing lookup raises.\<close>

fun prices_of :: "json list \<Rightarrow> py_error + json list" where
  "prices_of [] = Inr []"
| "prices_of (entry # entries) =
     (case getitem entry ''price'' of Inl e \<Rightarrow> Inl e
      | Inr p \<Rightarrow> (case prices_of entries of Inl e \<Rightarrow> Inl e | Inr ps \<Rightarrow> Inr (p # ps)))"

text \<open>
  The expression \<^verbatim>\<open>((end_price - start_price) / start_price) * 100\<close>; the product of the
  float quotient with the \<^verbatim>\<open>int\<close> 100 is the float product with 100.0.
\<close>

definition percent_expr :: "json \<Rightarrow> json \<Rightarrow> py_error + pyfloat" where
  "percent_expr end_price start_price =
     (case py_sub end_price start_price of Inl e \<Rightarrow> Inl e
      | Inr diff \<Rightarrow>
          (case num_of start_price of Inl e \<Rightarrow> Inl e
           | Inr start \<Rightarrow>
               (case py_truediv diff start of Inl e \<Rightarrow> Inl e
                | Inr q \<Rightarrow> Inr (float_mul q (Finite 100)))))"

definition analyze_trend :: "json list \<Rightarrow> int \<Rightarrow> py_error + pyfloat" where
  "analyze_trend history period =
     (if history = [] \<or> length history < 2 then Inr (Finite 0)
      else
        (case prices_of (slice_from history (- period)) of Inl e \<Rightarrow> Inl e
         | Inr recent_prices \<Rightarrow>
             (case recent_prices of [] \<Rightarrow> Inl IndexError
              | start_price # _ \<Rightarrow>
                  let end_price = last recent_prices in
                  percent_expr end_price start_price)))"

text \<open>
  \<^verbatim>\<open>trend_phrase\<close>: the literal \<^verbatim>\<open>0.1\<close> is the float nearest to one tenth.
\<close>

definition trend_phrase :: "pyfloat \<Rightarrow> string" where
  "trend_phrase change =
     (if float_lt (double (1 / 10)) change
      then ''increased by '' @ float_format 2 change @ ''%''
      else if float_lt change (float_neg (double (1 / 10)))
      then ''decreased by '' @ float_format 2 (float_abs change) @ ''%''
      else ''been relatively stable'')"

definition generate_trend_text :: "json list \<Rightarrow> py_error + string" where
  "generate_trend_text history =
     (if history = [] then Inr ''No sufficient data to determine trend.''
      else
        (case analyze_trend history 7 of Inl e \<Rightarrow> Inl e
         | Inr short_term \<Rightarrow>
             (case analyze_trend history
                     (if length history \<ge> 30 then 30 else int (length history)) of
                Inl e \<Rightarrow> Inl e
              | Inr long_term \<Rightarrow>
                  Inr (''Gold prices have '' @ trend_phrase short_term
                       @ '' over the last 7 days and have '' @ trend_phrase long_term
                       @ '' over the last 30 days.''))))"

text \<open>
  A positive price: a positive \<^verbatim>\<open>int\<close> or a positive finite float. An \<^verbatim>\<open>int\<close> below
  \<open>2 ^ 1023\<close> in magnitude is within the range of the floats. The trailing \<open>k\<close>
  entries of a series are the series itself when it has fewer than \<open>k\<close>.
  \<open>percent_change\<close> is \<^verbatim>\<open>(end.price - start.price) / start.price * 100\<close> for the first
  entry \<open>start\<close> and the last entry \<open>end\<close> of a window.
\<close>

definition positive_number :: "json \<Rightarrow> bool" where
  "positive_number p =
     (case p of
        JInt n \<Rightarrow> 0 < n
      | JFloat x \<Rightarrow> (case x of Finite v \<Rightarrow> 0 < v | _ \<Rightarrow> False)
      | _ \<Rightarrow> False)"

definition has_positive_price :: "json \<Rightarrow> bool" where
  "has_positive_price entry =
     (case getitem entry ''price'' of Inl e \<Rightarrow> False | Inr p \<Rightarrow> positive_number p)"



definition trailing :: "nat \<Rightarrow> 'a list \<Rightarrow> 'a list" where
  "trailing k xs = (if length xs < k then xs else drop (length xs - k) xs)"

definition percent_change :: "json list \<Rightarrow> py_error + pyfloat" where
  "percent_change window =
     (case getitem (last window) ''price'' of Inl e \<Rightarrow> Inl e
      | Inr end_price \<Rightarrow>
          (case getitem (hd window) ''price'' of Inl e \<Rightarrow> Inl e
           | Inr start_price \<Rightarrow> percent_expr end_price start_price))"

section \<open>Purchase recorder\<close>

record user =
  user_id :: nat
  name :: string
  email :: string

text \<open>The column \<^verbatim>\<open>timestamp\<close> is filled in by the database server and is left out.\<close>

record transaction =
  txn_id :: nat
  txn_user_id :: nat
  amount_inr :: pyfloat
  grams_purchased :: pyfloat
  gold_price_per_gram :: pyfloat

record database =
  users :: "user list"
  transactions :: "transaction list"

text \<open>
  A validated \<^verbatim>\<open>PurchaseRequest\<close>: the two fields declared \<^verbatim>\<open>float\<close> hold floats, whatever
  number the request body gave.
\<close>

record purchase_request =
  req_user_name :: string
  req_user_email :: string
  req_amount_inr :: pyfloat
  req_quoted_price_inr_per_gram :: pyfloat
  req_nudge_to_invest :: bool

record purchase_response =
  success :: bool
  message :: string
  transaction_id :: nat
  resp_grams_purchased :: pyfloat

text \<open>
  The outcome of the handler when it does not return: an \<^verbatim>\<open>HTTPException\<close> with its status
  code and detail, or an exception that nothing in the handler catches.
\<close>

datatype purchase_error = HTTPException nat string | Unhandled py_error

text \<open>The primary key that the database gives to a new row: above every key in use.\<close>

definition next_id :: "nat list \<Rightarrow> nat" where
  "next_id ids = Suc (fold max ids 0)"

text \<open>
  \<^verbatim>\<open>buy_digital_gold\<close> on a database state. \<open>float_repr\<close> is Python's conversion of a
  float to text, used by the message only. The rupee sign of the second detail is given by
  its three UTF-8 bytes. The comparison of the amount with the \<^verbatim>\<open>int\<close> 10 is exact. The
  quoted price is rounded when the transaction row is built, after the user row has been
  committed.
\<close>

definition buy_digital_gold ::
  "(pyfloat \<Rightarrow> string) \<Rightarrow> database \<Rightarrow> purchase_request
     \<Rightarrow> (purchase_error + purchase_response) \<times> database" where
  "buy_digital_gold float_repr db request =
     (if \<not> req_nudge_to_invest request then
        (Inl (HTTPException 400 ''Nudge flag is false. Purchase not allowed''), db)
      else
        let price_inr_per_gram = req_quoted_price_inr_per_gram request in
        if float_lt (req_amount_inr request) (Finite 10) then
          (Inl (HTTPException 400
             (''Minimum purchase is '' @ [CHR 0xE2, CHR 0x82, CHR 0xB9] @ ''10'')), db)
        else
          (case float_truediv (req_amount_inr request) price_inr_per_gram of
             Inl e \<Rightarrow> (Inl (Unhandled e), db)
           | Inr q \<Rightarrow>
               (case float_round q 4 of
                  Inl e \<Rightarrow> (Inl (Unhandled e), db)
                | Inr grams \<Rightarrow>
                    let found = find (\<lambda>u. email u = req_user_email request) (users db);
                        usr = (case found of Some u \<Rightarrow> u
                               | None \<Rightarrow> \<lparr>user_id = next_id (map user_id (users db)),
                                           name = req_user_name request,
                                           email = req_user_email request\<rparr>);
                        db1 = (case found of Some u \<Rightarrow> db
                               | None \<Rightarrow> db\<lparr>users := users db @ [usr]\<rparr>)
                    in (case float_round price_inr_per_gram 2 of
                          Inl e \<Rightarrow> (Inl (Unhandled e), db1)
                        | Inr stored_price \<Rightarrow>
                            let txn = \<lparr>txn_id = next_id (map txn_id (transactions db1)),
                                       txn_user_id = user_id usr,
                                       amount_inr = req_amount_inr request,
                                       grams_purchased = grams,
                                       gold_price_per_gram = stored_price\<rparr>;
                                db2 = db1\<lparr>transactions := transactions db1 @ [txn]\<rparr>
                            in (Inr \<lparr>success = True,
                                     message = ''Purchase of '' @ float_repr grams
                                                 @ ''g gold successful.'',
                                     transaction_id = txn_id txn,
                                     resp_grams_purchased = grams\<rparr>, db2)))))"

section \<open>Sample data\<close>

text \<open>A snapshot of three dated prices, not in the order of their dates, and its series.\<close>

definition sample_entries :: "json list" where
  "sample_entries =
     [JObj [(''date'', JStr ''2024-03-02''), (''price'', JInt 6150)],
      JObj [(''date'', JStr ''2024-02-29''), (''price'', JInt 6100)],
      JObj [(''date'', JStr ''2024-03-01''), (''price'', JInt 6125)]]"

definition sample_snapshot :: json where
  "sample_snapshot = JArr sample_entries"

definition sample_series :: "json list" where
  "sample_series =
     [JObj [(''date'', JStr ''2024-02-29''), (''price'', JInt 6100)],
      JObj [(''date'', JStr ''2024-03-01''), (''price'', JInt 6125)],
      JObj [(''date'', JStr ''2024-03-02''), (''price'', JInt 6150)]]"

text \<open>A purchase request of a given amount at a given quoted price, with the nudge accepted.\<close>

definition sample_request :: "pyfloat \<Rightarrow> pyfloat \<Rightarrow> purchase_request" where
  "sample_request amount quote =
     \<lparr>req_user_name = ''Asha'', req_user_email = ''asha@example.com'', req_amount_inr = amount,
      req_quoted_price_inr_per_gram = quote, req_nudge_to_invest = True\<rparr>"

definition empty_database :: database where
  "empty_database = \<lparr>users = [], transactions = []\<rparr>"

section \<open>Properties of the query classifier\<close>

lemma starts_with_iff: "starts_with k s \<longleftrightarrow> (\<exists>t. s = k @ t)"
  by (induction k s rule: starts_with.induct) auto

lemma str_contains_iff: "str_contains k s \<longleftrightarrow> (\<exists>p t. s = p @ k @ t)"
proof (induction s)
  case Nil
  then show ?case by auto
next
  case (Cons c cs)
  have "(\<exists>p t. c # cs = p @ k @ t) \<longleftrightarrow> (\<exists>t. c # cs = k @ t) \<or> (\<exists>p t. cs = p @ k @ t)"
    by (auto simp: Cons_eq_append_conv)
  with Cons show ?case by (simp add: starts_with_iff)
qed

lemma list_ex_contains_mentions:
  "list_ex (\<lambda>k. str_contains k (lower q)) ks \<longleftrightarrow> mentions ks q"
  by (auto simp: list_ex_iff mentions_def str_contains_iff)

text \<open>
  C5, as the code has it. The intent is found by keyword substring match on the question in
  lower case, with fixed precedence: a price term gives \<open>current_price\<close>, otherwise a
  history term gives \<open>history\<close>, otherwise a prediction term gives \<open>prediction\<close>, and a
  question with none of them is \<open>general_info\<close>. The four example questions are classified
  as \<open>current_price\<close>, \<open>history\<close>, \<open>current_price\<close> and \<open>general_info\<close>: the
  question "Will gold price rise?" holds the price term "price", which precedes its
  prediction term "will".
\<close>

theorem keyword_classify_precedence:
  "keyword_classify q =
     (if mentions [''price'', ''rate'', ''current'', ''today''] q then ''current_price''
      else if mentions [''history'', ''past'', ''last'', ''trend''] q then ''history''
      else if mentions [''predict'', ''forecast'', ''future'', ''will''] q then ''prediction''
      else ''general_info'')
   \<and> keyword_classify ''What's the current price of gold?'' = ''current_price''
   \<and> keyword_classify ''Show me gold history'' = ''history''
   \<and> keyword_classify ''Will gold price rise?'' = ''current_price''
   \<and> keyword_classify ''Tell me about gold'' = ''general_info''"
proof (intro conjI)
  show "keyword_classify q =
     (if mentions [''price'', ''rate'', ''current'', ''today''] q then ''current_price''
      else if mentions [''history'', ''past'', ''last'', ''trend''] q then ''history''
      else if mentions [''predict'', ''forecast'', ''future'', ''will''] q then ''prediction''
      else ''general_info'')"
    unfolding keyword_classify_def Let_def list_ex_contains_mentions by (rule refl)
  show "keyword_classify ''What's the current price of gold?'' = ''current_price''"
    by code_simp
  show "keyword_classify ''Show me gold history'' = ''history''"
    by code_simp
  show "keyword_classify ''Will gold price rise?'' = ''current_price''"
    by code_simp
  show "keyword_classify ''Tell me about gold'' = ''general_info''"
    by code_simp
qed

text \<open>
  A question with a price term and a prediction term, in upper case: it is classified as
  \<open>current_price\<close>.
\<close>

theorem keyword_classify_precedence_witness:
  "mentions [''price'', ''rate'', ''current'', ''today''] ''WILL gold PRICE rise?''
   \<and> mentions [''predict'', ''forecast'', ''future'', ''will''] ''WILL gold PRICE rise?''
   \<and> keyword_classify ''WILL gold PRICE rise?'' = ''current_price''"
proof -
  have a: "mentions [''price'', ''rate'', ''current'', ''today''] ''WILL gold PRICE rise?''"
    unfolding list_ex_contains_mentions [symmetric] by code_simp
  have b: "mentions [''predict'', ''forecast'', ''future'', ''will''] ''WILL gold PRICE rise?''"
    unfolding list_ex_contains_mentions [symmetric] by code_simp
  from a b keyword_classify_precedence [of "''WILL gold PRICE rise?''"] show ?thesis
    by simp
qed

text \<open>
  C5 as stated fails on its third example: the classifier does not answer \<open>prediction\<close>
  for "Will gold price rise?".
\<close>

theorem keyword_classify_example_counterexample:
  "keyword_classify ''Will gold price rise?'' \<noteq> ''prediction''"
  by code_simp

section \<open>Properties of floating point arithmetic\<close>

lemma round_half_even_bounds:
  "\<bar>x - of_int (round_half_even x)\<bar> \<le> 1 / 2"
  unfolding round_half_even_def Let_def by (auto split: if_splits)

lemma round_half_even_nonneg: "0 \<le> x \<Longrightarrow> 0 \<le> round_half_even x"
  by (auto simp: round_half_even_def Let_def)



lemma pow2_powi: "pow2 e = 2 powi e"
  by (simp add: pow2_def power_int_def power_inverse [symmetric] field_simps)

lemma pow2_pos: "0 < pow2 e"
  by (simp add: pow2_powi)











lemma round_to_double_nonneg:
  assumes "0 \<le> m"
  shows "0 \<le> round_to_double m"
proof -
  let ?ulp = "pow2 (exponent m - 52)"
  have ulp: "0 < ?ulp" by (rule pow2_pos)
  with assms have "0 \<le> m / ?ulp" by simp
  then have "0 \<le> round_half_even (m / ?ulp)" by (rule round_half_even_nonneg)
  then have "0 \<le> (of_int (round_half_even (m / ?ulp)) :: real)" by simp
  with ulp have "0 \<le> of_int (round_half_even (m / ?ulp)) * ?ulp" by simp
  then show ?thesis by (simp add: round_to_double_def Let_def)
qed

text \<open>
  A finite float rounded to \<open>n\<close> decimals: the float nearest to a whole number of units
  \<open>10 ^ - n\<close> that is at most half a unit away from the magnitude.
\<close>

lemma float_round_finite:
  assumes "float_round (Finite v) n = Inr r"
  shows "\<exists>k::int. \<bar>\<bar>v\<bar> * 10 ^ n - of_int k\<bar> \<le> 1 / 2
           \<and> \<bar>value_of r\<bar> = round_to_double (of_int k / 10 ^ n)"
proof -
  define k where "k = round_half_even (\<bar>v\<bar> * 10 ^ n)"
  define d where "d = round_to_double (of_int k / 10 ^ n)"
  have "0 \<le> k" unfolding k_def by (rule round_half_even_nonneg) simp
  then have "0 \<le> (of_int k :: real) / 10 ^ n" by simp
  then have d: "0 \<le> d" unfolding d_def by (rule round_to_double_nonneg)
  have "float_round (Finite v) n =
      (if 2 ^ 1024 \<le> d then Inl OverflowError
       else Inr (if d = 0 then signed_zero (v < 0) else Finite (if v < 0 then - d else d)))"
    by (simp only: float_round.simps Let_def d_def k_def)
  with assms have "r = (if d = 0 then signed_zero (v < 0) else Finite (if v < 0 then - d else d))"
    by (cases "(2::real) ^ 1024 \<le> d") simp_all
  with d have "\<bar>value_of r\<bar> = d"
    by (auto simp: signed_zero_def)
  moreover have "\<bar>\<bar>v\<bar> * 10 ^ n - of_int k\<bar> \<le> 1 / 2"
    unfolding k_def by (rule round_half_even_bounds)
  ultimately show ?thesis unfolding d_def by blast
qed

text \<open>Evaluation of the arithmetic on given numbers.\<close>

lemmas float_eval =
  round_to_double_def exponent_def binade_up.simps binade_down.simps pow2_def
  round_half_even_def double_def signed_zero_def signed_inf_def is_zero_def is_inf_def
  float_sub_def float_mul_def float_div_def float_truediv_def float_lt_def
  int_to_float_def int_truediv_def

lemma digit_chars:
  "digit_char 0 = CHR ''0''" "digit_char 1 = CHR ''1''" "digit_char 2 = CHR ''2''"
  "digit_char 3 = CHR ''3''" "digit_char 4 = CHR ''4''" "digit_char 5 = CHR ''5''"
  "digit_char 6 = CHR ''6''" "digit_char 7 = CHR ''7''" "digit_char 8 = CHR ''8''"
  "digit_char 9 = CHR ''9''" "digit_char (Suc 0) = CHR ''1''"
  unfolding digit_char_def by (simp_all add: char_of_def bit_Suc_0_iff)

lemma replicate_two: "replicate 2 x = [x, x]"
  by (simp add: numeral_2_eq_2)

lemma double_examples:
  "double (1 / 10) = Finite (3602879701896397 / 36028797018963968)"
  "double (1667 / 10000) = Finite (6006000463061293 / 36028797018963968)"
  "double (13 / 10000) = Finite (1498797955988901 / 1152921504606846976)"
  by (simp_all add: float_eval)

section \<open>Properties of the purchase recorder\<close>

lemma buy_rejected:
  assumes "\<not> req_nudge_to_invest request \<or> float_lt (req_amount_inr request) (Finite 10)"
  shows "\<exists>detail. buy_digital_gold float_repr db request = (Inl (HTTPException 400 detail), db)"
  using assms by (auto simp: buy_digital_gold_def Let_def)

lemma buy_fst:
  assumes "req_nudge_to_invest request"
    and "\<not> float_lt (req_amount_inr request) (Finite 10)"
    and "float_truediv (req_amount_inr request) (req_quoted_price_inr_per_gram request) = Inr q"
    and "float_round q 4 = Inr grams"
    and "float_round (req_quoted_price_inr_per_gram request) 2 = Inr stored_price"
  shows "fst (buy_digital_gold float_repr db request) =
     Inr \<lparr>success = True,
          message = ''Purchase of '' @ float_repr grams @ ''g gold successful.'',
          transaction_id = next_id (map txn_id (transactions db)),
          resp_grams_purchased = grams\<rparr>"
  using assms
  by (simp add: buy_digital_gold_def Let_def split: option.split)

lemma buy_txns:
  assumes "req_nudge_to_invest request"
    and "\<not> float_lt (req_amount_inr request) (Finite 10)"
    and "float_truediv (req_amount_inr request) (req_quoted_price_inr_per_gram request) = Inr q"
    and "float_round q 4 = Inr grams"
    and "float_round (req_quoted_price_inr_per_gram request) 2 = Inr stored_price"
  shows "\<exists>uid. transactions (snd (buy_digital_gold float_repr db request)) =
     transactions db @
       [\<lparr>txn_id = next_id (map txn_id (transactions db)),
         txn_user_id = uid,
         amount_inr = req_amount_inr request,
         grams_purchased = grams,
         gold_price_per_gram = stored_price\<rparr>]"
  using assms
  by (simp add: buy_digital_gold_def Let_def split: option.split)

lemma buy_success_cases:
  assumes "buy_digital_gold float_repr db request = (Inr resp, db')"
  shows "req_nudge_to_invest request \<and> \<not> float_lt (req_amount_inr request) (Finite 10)
         \<and> (\<exists>q grams stored_price.
               float_truediv (req_amount_inr request) (req_quoted_price_inr_per_gram request)
                 = Inr q
               \<and> float_round q 4 = Inr grams
               \<and> float_round (req_quoted_price_inr_per_gram request) 2 = Inr stored_price)"
proof -
  have "fst (buy_digital_gold float_repr db request) = Inr resp"
    by (simp add: assms)
  then show ?thesis
    by (simp add: buy_digital_gold_def Let_def split: if_splits sum.splits)
qed

text \<open>
  The validation of a purchase. A request with \<open>nudge_to_invest = false\<close> or with
  \<open>amount_inr < 10\<close> is rejected with an HTTP 400 error, whatever its other fields, and the
  database is left as it was: no user row and no transaction row is created. A request that
  passes both checks, quotes a price other than zero and whose two roundings give a float
  returns \<open>success = true\<close>.
\<close>

lemma purchase_validation:
  "(\<not> req_nudge_to_invest request \<or> float_lt (req_amount_inr request) (Finite 10) \<longrightarrow>
      (\<exists>detail. buy_digital_gold float_repr db request
                  = (Inl (HTTPException 400 detail), db)))
   \<and> (req_nudge_to_invest request \<and> \<not> float_lt (req_amount_inr request) (Finite 10)
        \<and> float_truediv (req_amount_inr request) (req_quoted_price_inr_per_gram request)
            = Inr q
        \<and> float_round q 4 = Inr grams
        \<and> float_round (req_quoted_price_inr_per_gram request) 2 = Inr stored_price \<longrightarrow>
      (\<exists>resp. fst (buy_digital_gold float_repr db request) = Inr resp \<and> success resp))"
proof (intro conjI impI)
  assume "\<not> req_nudge_to_invest request \<or> float_lt (req_amount_inr request) (Finite 10)"
  then show "\<exists>detail. buy_digital_gold float_repr db request
                        = (Inl (HTTPException 400 detail), db)"
    by (rule buy_rejected)
next
  assume a: "req_nudge_to_invest request \<and> \<not> float_lt (req_amount_inr request) (Finite 10)
        \<and> float_truediv (req_amount_inr request) (req_quoted_price_inr_per_gram request)
            = Inr q
        \<and> float_round q 4 = Inr grams
        \<and> float_round (req_quoted_price_inr_per_gram request) 2 = Inr stored_price"
  then have "req_nudge_to_invest request" "\<not> float_lt (req_amount_inr request) (Finite 10)"
    "float_truediv (req_amount_inr request) (req_quoted_price_inr_per_gram request) = Inr q"
    "float_round q 4 = Inr grams"
    "float_round (req_quoted_price_inr_per_gram request) 2 = Inr stored_price"
    by simp_all
  from buy_fst [OF this, of float_repr db]
  show "\<exists>resp. fst (buy_digital_gold float_repr db request) = Inr resp \<and> success resp"
    by simp
qed

lemma purchase_examples:
  "float_truediv (Finite 1000) (Finite 6000)
     = Inr (Finite (6004799503160661 / 36028797018963968))"
  "float_round (Finite (6004799503160661 / 36028797018963968)) 4 = Inr (double (1667 / 10000))"
  "float_truediv (Finite 10) (Finite 8000)
     = Inr (Finite (5764607523034235 / 4611686018427387904))"
  "float_round (Finite (5764607523034235 / 4611686018427387904)) 4 = Inr (double (13 / 10000))"
  "float_round (Finite 6000) 2 = Inr (Finite 6000)"
  "float_round (Finite 8000) 2 = Inr (Finite 8000)"
  by (simp_all add: float_eval)

lemma format_examples:
  "float_format 4 (double (1667 / 10000)) = ''0.1667''"
  "float_format 4 (double (13 / 10000)) = ''0.0013''"
  by (simp_all add: double_examples round_half_even_def digits.simps digit_chars
      replicate_two)

text \<open>
  A purchase of 5 rupees with the nudge accepted is rejected and leaves the empty database
  empty; a purchase of 1000 rupees at 6000 rupees per gram succeeds.
\<close>

lemma purchase_validation_examples:
  "(\<exists>detail. buy_digital_gold (float_format 4) empty_database
                 (sample_request (Finite 5) (Finite 6000))
      = (Inl (HTTPException 400 detail), empty_database))
   \<and> (\<exists>resp. fst (buy_digital_gold (float_format 4) empty_database
                 (sample_request (Finite 1000) (Finite 6000))) = Inr resp
      \<and> success resp)"
proof
  have "float_lt (req_amount_inr (sample_request (Finite 5) (Finite 6000))) (Finite 10)"
    by (simp add: sample_request_def float_lt_def)
  with purchase_validation [of "sample_request (Finite 5) (Finite 6000)" "float_format 4"
      empty_database]
  show "\<exists>detail. buy_digital_gold (float_format 4) empty_database
                 (sample_request (Finite 5) (Finite 6000))
      = (Inl (HTTPException 400 detail), empty_database)"
    by blast
  have "req_nudge_to_invest (sample_request (Finite 1000) (Finite 6000))
     \<and> \<not> float_lt (req_amount_inr (sample_request (Finite 1000) (Finite 6000))) (Finite 10)
     \<and> float_truediv (req_amount_inr (sample_request (Finite 1000) (Finite 6000)))
          (req_quoted_price_inr_per_gram (sample_request (Finite 1000) (Finite 6000)))
         = Inr (Finite (6004799503160661 / 36028797018963968))
     \<and> float_round (Finite (6004799503160661 / 36028797018963968)) 4
         = Inr (double (1667 / 10000))
     \<and> float_round (req_quoted_price_inr_per_gram (sample_request (Finite 1000) (Finite 6000))) 2
         = Inr (Finite 6000)"
    by (simp add: sample_request_def float_lt_def purchase_examples
        del: float_round.simps)
  with purchase_validation [of "sample_request (Finite 1000) (Finite 6000)" "float_format 4"
      empty_database]
  show "\<exists>resp. fst (buy_digital_gold (float_format 4) empty_database
                 (sample_request (Finite 1000) (Finite 6000))) = Inr resp
      \<and> success resp"
    by blast
qed

text \<open>
  C8. Every request that passes both checks should return \<open>success = true\<close>. The code
  does not: a request with the nudge accepted, an amount of 1000 and the quoted price 0
  passes both checks, and then the division raises \<open>ZeroDivisionError\<close>, which the
  handler does not catch, so no response with \<open>success = true\<close> is returned.
\<close>

theorem purchase_zero_quote_fails:
  "fst (buy_digital_gold (float_format 4) \<lparr>users = [], transactions = []\<rparr>
      \<lparr>req_user_name = ''Asha'', req_user_email = ''asha@example.com'',
        req_amount_inr = Finite 1000, req_quoted_price_inr_per_gram = Finite 0,
        req_nudge_to_invest = True\<rparr>)
   = Inl (Unhandled ZeroDivisionError)"
  by (simp add: buy_digital_gold_def float_truediv_def float_lt_def is_zero_def)

text \<open>
  C9. For every accepted purchase the grams purchased, in the response and in the new
  transaction row, are \<open>round(amount_inr / quoted_price_inr_per_gram, 4)\<close>: the float
  quotient, rounded to 4 decimal places. Exactly one transaction row is added; it carries
  the id of the response, the amount of the request and the quoted price rounded to 2
  decimal places, \<open>round(price, 2)\<close>: for a finite quote, the float nearest to a whole number
  of hundredths that is at most half a hundredth from the quote. With \<open>amount_inr = 1000\<close>
  and a quote of 6000 the grams purchased are 0.1667, the float nearest to 1667 / 10000.
\<close>

theorem purchase_grams:
  assumes "buy_digital_gold float_repr db request = (Inr resp, db')"
  shows "(\<exists>q. float_truediv (req_amount_inr request) (req_quoted_price_inr_per_gram request)
                = Inr q
             \<and> float_round q 4 = Inr (resp_grams_purchased resp))
     \<and> (\<exists>txn. transactions db' = transactions db @ [txn]
           \<and> txn_id txn = transaction_id resp
           \<and> amount_inr txn = req_amount_inr request
           \<and> grams_purchased txn = resp_grams_purchased resp
           \<and> float_round (req_quoted_price_inr_per_gram request) 2
               = Inr (gold_price_per_gram txn)
           \<and> (\<forall>v. req_quoted_price_inr_per_gram request = Finite v \<longrightarrow>
                 (\<exists>k::int. \<bar>\<bar>v\<bar> * 100 - of_int k\<bar> \<le> 1 / 2
                    \<and> \<bar>value_of (gold_price_per_gram txn)\<bar>
                        = round_to_double (of_int k / 100))))
     \<and> (req_amount_inr request = Finite 1000
          \<and> req_quoted_price_inr_per_gram request = Finite 6000
          \<longrightarrow> resp_grams_purchased resp = double (1667 / 10000))"
proof -
  from buy_success_cases [OF assms] obtain q grams stored_price
    where ok: "req_nudge_to_invest request"
      "\<not> float_lt (req_amount_inr request) (Finite 10)"
      "float_truediv (req_amount_inr request) (req_quoted_price_inr_per_gram request) = Inr q"
      "float_round q 4 = Inr grams"
      "float_round (req_quoted_price_inr_per_gram request) 2 = Inr stored_price"
    by blast
  have f: "fst (buy_digital_gold float_repr db request) = Inr resp"
    and s: "snd (buy_digital_gold float_repr db request) = db'"
    by (simp_all add: assms)
  from buy_fst [OF ok, of float_repr db] f
  have grams: "resp_grams_purchased resp = grams"
    and tid: "transaction_id resp = next_id (map txn_id (transactions db))"
    by auto
  from buy_txns [OF ok, of float_repr db] s
  obtain uid where txns: "transactions db' = transactions db @
       [\<lparr>txn_id = next_id (map txn_id (transactions db)),
         txn_user_id = uid,
         amount_inr = req_amount_inr request,
         grams_purchased = grams,
         gold_price_per_gram = stored_price\<rparr>]"
    by auto
  have two: "\<exists>k::int. \<bar>\<bar>v\<bar> * 100 - of_int k\<bar> \<le> 1 / 2
                    \<and> \<bar>value_of stored_price\<bar> = round_to_double (of_int k / 100)"
    if "req_quoted_price_inr_per_gram request = Finite v" for v
  proof -
    from that ok(5) have "float_round (Finite v) 2 = Inr stored_price" by simp
    from float_round_finite [OF this] show ?thesis by simp
  qed
  show ?thesis
  proof (intro conjI impI)
    from ok(3,4) grams
    show "\<exists>q. float_truediv (req_amount_inr request) (req_quoted_price_inr_per_gram request)
                = Inr q
             \<and> float_round q 4 = Inr (resp_grams_purchased resp)"
      by blast
    show "\<exists>txn. transactions db' = transactions db @ [txn]
           \<and> txn_id txn = transaction_id resp
           \<and> amount_inr txn = req_amount_inr request
           \<and> grams_purchased txn = resp_grams_purchased resp
           \<and> float_round (req_quoted_price_inr_per_gram request) 2
               = Inr (gold_price_per_gram txn)
           \<and> (\<forall>v. req_quoted_price_inr_per_gram request = Finite v \<longrightarrow>
                 (\<exists>k::int. \<bar>\<bar>v\<bar> * 100 - of_int k\<bar> \<le> 1 / 2
                    \<and> \<bar>value_of (gold_price_per_gram txn)\<bar>
                        = round_to_double (of_int k / 100)))"
      using two ok(5) by (simp add: txns grams tid)
    assume "req_amount_inr request = Finite 1000
          \<and> req_quoted_price_inr_per_gram request = Finite 6000"
    with ok(3) have "q = Finite (6004799503160661 / 36028797018963968)"
      by (simp add: purchase_examples)
    with ok(4) have "grams = double (1667 / 10000)"
      by (simp add: purchase_examples del: float_round.simps)
    with grams show "resp_grams_purchased resp = double (1667 / 10000)"
      by simp
  qed
qed

text \<open>
  The purchase of 1000 rupees at 6000 rupees per gram on the empty database: 0.1667 grams,
  and one transaction row with the price 6000. The purchase of 10 rupees at 8000 rupees per
  gram: the float quotient lies above 0.00125 and is rounded to 0.0013 grams.
\<close>

theorem purchase_grams_witness:
  "buy_digital_gold (float_format 4) empty_database
      (sample_request (Finite 1000) (Finite 6000))
     = (Inr \<lparr>success = True, message = ''Purchase of 0.1667g gold successful.'',
              transaction_id = 1, resp_grams_purchased = double (1667 / 10000)\<rparr>,
        \<lparr>users = [\<lparr>user_id = 1, name = ''Asha'', email = ''asha@example.com''\<rparr>],
         transactions = [\<lparr>txn_id = 1, txn_user_id = 1, amount_inr = Finite 1000,
            grams_purchased = double (1667 / 10000), gold_price_per_gram = Finite 6000\<rparr>]\<rparr>)
   \<and> float_truediv (Finite 1000) (Finite 6000)
       = Inr (Finite (6004799503160661 / 36028797018963968))
   \<and> float_round (Finite (6004799503160661 / 36028797018963968)) 4
       = Inr (double (1667 / 10000))
   \<and> double (1667 / 10000) = Finite (6006000463061293 / 36028797018963968)
   \<and> buy_digital_gold (float_format 4) empty_database
      (sample_request (Finite 10) (Finite 8000))
     = (Inr \<lparr>success = True, message = ''Purchase of 0.0013g gold successful.'',
              transaction_id = 1, resp_grams_purchased = double (13 / 10000)\<rparr>,
        \<lparr>users = [\<lparr>user_id = 1, name = ''Asha'', email = ''asha@example.com''\<rparr>],
         transactions = [\<lparr>txn_id = 1, txn_user_id = 1, amount_inr = Finite 10,
            grams_purchased = double (13 / 10000), gold_price_per_gram = Finite 8000\<rparr>]\<rparr>)"
proof -
  have run: "buy_digital_gold (float_format 4) empty_database
      (sample_request (Finite 1000) (Finite 6000))
     = (Inr \<lparr>success = True, message = ''Purchase of 0.1667g gold successful.'',
              transaction_id = 1, resp_grams_purchased = double (1667 / 10000)\<rparr>,
        \<lparr>users = [\<lparr>user_id = 1, name = ''Asha'', email = ''asha@example.com''\<rparr>],
         transactions = [\<lparr>txn_id = 1, txn_user_id = 1, amount_inr = Finite 1000,
            grams_purchased = double (1667 / 10000), gold_price_per_gram = Finite 6000\<rparr>]\<rparr>)"
    by (simp add: buy_digital_gold_def sample_request_def empty_database_def purchase_examples
        format_examples next_id_def float_lt_def Let_def
        del: float_round.simps float_format.simps)
  have run2: "buy_digital_gold (float_format 4) empty_database
      (sample_request (Finite 10) (Finite 8000))
     = (Inr \<lparr>success = True, message = ''Purchase of 0.0013g gold successful.'',
              transaction_id = 1, resp_grams_purchased = double (13 / 10000)\<rparr>,
        \<lparr>users = [\<lparr>user_id = 1, name = ''Asha'', email = ''asha@example.com''\<rparr>],
         transactions = [\<lparr>txn_id = 1, txn_user_id = 1, amount_inr = Finite 10,
            grams_purchased = double (13 / 10000), gold_price_per_gram = Finite 8000\<rparr>]\<rparr>)"
    by (simp add: buy_digital_gold_def sample_request_def empty_database_def purchase_examples
        format_examples next_id_def float_lt_def Let_def
        del: float_round.simps float_format.simps)
  from purchase_grams [OF run]
  obtain q where q: "float_truediv (req_amount_inr (sample_request (Finite 1000) (Finite 6000)))
        (req_quoted_price_inr_per_gram (sample_request (Finite 1000) (Finite 6000))) = Inr q"
      "float_round q 4 = Inr (resp_grams_purchased
         \<lparr>success = True, message = ''Purchase of 0.1667g gold successful.'',
          transaction_id = 1, resp_grams_purchased = double (1667 / 10000)\<rparr>)"
    by blast
  from q(1) have qv: "q = Finite (6004799503160661 / 36028797018963968)"
    by (simp add: sample_request_def purchase_examples)
  from q have a: "float_truediv (Finite 1000) (Finite 6000)
       = Inr (Finite (6004799503160661 / 36028797018963968))"
    by (simp add: sample_request_def qv)
  from q(2) have b: "float_round (Finite (6004799503160661 / 36028797018963968)) 4
       = Inr (double (1667 / 10000))"
    by (simp add: qv del: float_round.simps)
  have c: "double (1667 / 10000) = Finite (6006000463061293 / 36028797018963968)"
    by (rule double_examples)
  from run a b c run2 show ?thesis by (intro conjI)
qed

text \<open>
  C10. The validation of the purchase flow does not exclude a quoted price of zero, and
  the division by the quoted price has no guard: every request with the nudge accepted, an
  amount that is not below 10 and the quoted price 0 (a zero of either sign) passes both
  checks and then fails in the division with a \<open>ZeroDivisionError\<close> that the handler does
  not catch, before any row is written.
\<close>

theorem zero_quote_unguarded:
  assumes "req_nudge_to_invest request"
    and "\<not> float_lt (req_amount_inr request) (Finite 10)"
    and "is_zero (req_quoted_price_inr_per_gram request)"
  shows "buy_digital_gold float_repr db request = (Inl (Unhandled ZeroDivisionError), db)"
  using assms by (simp add: buy_digital_gold_def float_truediv_def)

theorem zero_quote_unguarded_witness:
  "req_nudge_to_invest \<lparr>req_user_name = ''Asha'', req_user_email = ''asha@example.com'',
        req_amount_inr = Finite 10, req_quoted_price_inr_per_gram = Finite 0,
        req_nudge_to_invest = True\<rparr>
   \<and> \<not> float_lt (Finite 10) (Finite 10) \<and> is_zero (Finite 0)
   \<and> buy_digital_gold (float_format 4) \<lparr>users = [], transactions = []\<rparr>
      \<lparr>req_user_name = ''Asha'', req_user_email = ''asha@example.com'',
        req_amount_inr = Finite 10, req_quoted_price_inr_per_gram = Finite 0,
        req_nudge_to_invest = True\<rparr>
     = (Inl (Unhandled ZeroDivisionError), \<lparr>users = [], transactions = []\<rparr>)"
  using zero_quote_unguarded [of "\<lparr>req_user_name = ''Asha'',
        req_user_email = ''asha@example.com'', req_amount_inr = Finite 10,
        req_quoted_price_inr_per_gram = Finite 0, req_nudge_to_invest = True\<rparr>"
      "float_format 4" "\<lparr>users = [], transactions = []\<rparr>"]
  by (simp add: float_lt_def is_zero_def)

section \<open>Properties of the backup price store\<close>

lemma keys_of_Inr_iff: "keys_of f xs = Inr ks \<longleftrightarrow> map f xs = map Inr ks"
proof (induction xs arbitrary: ks)
  case Nil
  then show ?case by auto
next
  case (Cons x xs)
  show ?case
  proof (cases "f x")
    case (Inl e)
    then show ?thesis by (auto simp: Cons_eq_map_conv)
  next
    case (Inr k)
    then show ?thesis
      using Cons.IH by (cases "keys_of f xs") (auto simp: Cons_eq_map_conv)
  qed
qed

lemma keys_of_zip:
  assumes "keys_of f xs = Inr ks" and "(k, x) \<in> set (zip ks xs)"
  shows "f x = Inr k"
proof -
  from assms(1) have m: "map f xs = map Inr ks" by (simp add: keys_of_Inr_iff)
  then have len: "length xs = length ks" by (rule map_eq_imp_length_eq)
  from assms(2) obtain i where i: "i < length ks" "i < length xs" "ks ! i = k" "xs ! i = x"
    by (auto simp: set_zip)
  from m i have "map f xs ! i = map Inr ks ! i" by simp
  with i show ?thesis by simp
qed

lemma comparable_subset:
  assumes "comparable ks" and "set ks' \<subseteq> set ks"
  shows "comparable ks'"
  using assms by (auto simp: comparable_def list_all_iff)

text \<open>
  The result of \<^verbatim>\<open>sorted\<close>: the same elements, each with a key; the keys are of one kind
  and ascend.
\<close>

lemma py_sorted_sorted:
  assumes "py_sorted f xs = Inr ys"
  shows "\<exists>ks. keys_of f ys = Inr ks \<and> sorted (map instant ks) \<and> comparable ks
           \<and> mset ys = mset xs"
proof -
  from assms obtain ks0 where k0: "keys_of f xs = Inr ks0" and c0: "comparable ks0"
    and ys: "ys = map snd (sort_key (\<lambda>kx. instant (fst kx)) (zip ks0 xs))"
    by (auto simp: py_sorted_def split: sum.splits if_splits)
  let ?zs = "sort_key (\<lambda>kx. instant (fst kx)) (zip ks0 xs)"
  from k0 have "map f xs = map Inr ks0" by (simp add: keys_of_Inr_iff)
  then have len: "length xs = length ks0" by (rule map_eq_imp_length_eq)
  have "\<forall>z \<in> set ?zs. f (snd z) = Inr (fst z)"
    using keys_of_zip [OF k0] by auto
  then have "map f (map snd ?zs) = map Inr (map fst ?zs)"
    by simp
  then have keys: "keys_of f ys = Inr (map fst ?zs)"
    by (simp add: keys_of_Inr_iff ys)
  have "sorted (map (\<lambda>kx. instant (fst kx)) ?zs)"
    by (rule sorted_sort_key)
  then have sorted: "sorted (map instant (map fst ?zs))"
    by (simp add: comp_def)
  have "set (map fst ?zs) \<subseteq> set ks0"
    by (auto dest: set_zip_leftD)
  with c0 have comp: "comparable (map fst ?zs)"
    by (rule comparable_subset)
  have "mset ys = image_mset snd (mset ?zs)"
    by (simp add: ys)
  also have "\<dots> = mset (map snd (zip ks0 xs))"
    by simp
  also have "\<dots> = mset xs"
    using len by simp
  finally have "mset ys = mset xs" .
  with keys sorted comp show ?thesis by blast
qed

lemma backup_cases:
  assumes "get_backup_gold_data fromisoformat loaded = Inr series"
  shows "series = [] \<or>
         (\<exists>data xs. loaded = Inr data \<and> py_iter data = Inr xs
            \<and> py_sorted (date_key fromisoformat) xs = Inr series)"
  using assms
  by (auto simp: get_backup_gold_data_def Let_def split: sum.splits if_splits)

lemma backup_dates_sorted:
  assumes "get_backup_gold_data fromisoformat loaded = Inr series"
  shows "\<exists>dates. keys_of (date_key fromisoformat) series = Inr dates
           \<and> sorted (map instant dates) \<and> comparable dates"
proof -
  from backup_cases [OF assms] show ?thesis
  proof
    assume "series = []"
    then show ?thesis by (simp add: comparable_def)
  next
    assume "\<exists>data xs. loaded = Inr data \<and> py_iter data = Inr xs
            \<and> py_sorted (date_key fromisoformat) xs = Inr series"
    then obtain xs where "py_sorted (date_key fromisoformat) xs = Inr series"
      by blast
    from py_sorted_sorted [OF this] show ?thesis by blast
  qed
qed

lemma backup_missing_or_malformed:
  assumes "loaded = Inl FileNotFoundError \<or> loaded = Inl JSONDecodeError"
  shows "get_backup_gold_data fromisoformat loaded = Inr []"
  using assms by (auto simp: get_backup_gold_data_def)

lemma sample_dates:
  "iso_date ''2024-03-02'' = Inr (Naive 20240302)"
  "iso_date ''2024-02-29'' = Inr (Naive 20240229)"
  "iso_date ''2024-03-01'' = Inr (Naive 20240301)"
  by (simp_all add: iso_date_def digit_val_def days_in_month_def)

lemma sample_backup:
  "get_backup_gold_data iso_date (Inr sample_snapshot) = Inr sample_series"
  by (simp add: get_backup_gold_data_def sample_snapshot_def sample_entries_def
      sample_series_def py_sorted_def date_key_def sample_dates comparable_def)

text \<open>
  C4. Every price series that the backup price store returns is sorted ascending by date:
  each entry has a date, the dates are all naive or all aware, and the dates of the entries,
  in the order of the series, ascend. The series holds exactly the entries of the snapshot
  array, whatever their order on disk.
\<close>

theorem backup_sorted_by_date:
  assumes "get_backup_gold_data fromisoformat loaded = Inr series"
  shows "\<exists>dates. keys_of (date_key fromisoformat) series = Inr dates
           \<and> sorted (map instant dates) \<and> comparable dates
           \<and> (\<forall>entries. loaded = Inr (JArr entries) \<and> series \<noteq> []
                 \<longrightarrow> mset series = mset entries)"
proof -
  from backup_dates_sorted [OF assms] obtain dates
    where d: "keys_of (date_key fromisoformat) series = Inr dates"
      "sorted (map instant dates)" "comparable dates"
    by blast
  have "mset series = mset entries" if "loaded = Inr (JArr entries)" "series \<noteq> []" for entries
  proof -
    from backup_cases [OF assms] that
    have "py_sorted (date_key fromisoformat) entries = Inr series"
      by auto
    from py_sorted_sorted [OF this] show ?thesis by blast
  qed
  with d show ?thesis by blast
qed

text \<open>A snapshot of three entries, not in the order of their dates.\<close>

theorem backup_sorted_by_date_witness:
  "get_backup_gold_data iso_date (Inr sample_snapshot) = Inr sample_series
   \<and> (\<exists>dates. keys_of (date_key iso_date) sample_series = Inr dates
         \<and> sorted (map instant dates) \<and> comparable dates)
   \<and> mset sample_series = mset sample_entries"
proof -
  have run: "get_backup_gold_data iso_date (Inr sample_snapshot) = Inr sample_series"
    by (rule sample_backup)
  have ne: "sample_series \<noteq> []" by (simp add: sample_series_def)
  from backup_sorted_by_date [OF run] obtain dates
    where d: "keys_of (date_key iso_date) sample_series = Inr dates"
      "sorted (map instant dates)" "comparable dates"
      and m: "\<forall>entries. (Inr sample_snapshot :: py_error + json) = Inr (JArr entries)
                \<and> sample_series \<noteq> [] \<longrightarrow> mset sample_series = mset entries"
    by blast
  from m ne have "mset sample_series = mset sample_entries"
    by (simp add: sample_snapshot_def)
  moreover from d
  have "\<exists>dates. keys_of (date_key iso_date) sample_series = Inr dates
          \<and> sorted (map instant dates) \<and> comparable dates"
    by blast
  ultimately show ?thesis using run by (intro conjI)
qed

text \<open>
  C3. No exception of the loader should reach its caller, whatever the snapshot file holds:
  the final safety net of \<^verbatim>\<open>ask_kuber_ai\<close> calls the loader outside any handler. The code
  does not ensure this: its \<^verbatim>\<open>except\<close> clause catches \<^verbatim>\<open>FileNotFoundError\<close> and
  \<^verbatim>\<open>JSONDecodeError\<close> only, and on a snapshot that is valid JSON but has an entry without
  a date, \<^verbatim>\<open>[{"price": 6125}]\<close>, the sort key raises \<open>KeyError\<close>, which reaches the
  caller.
\<close>

theorem backup_missing_date_raises:
  "get_backup_gold_data iso_date (Inr (JArr [JObj [(''price'', JInt 6125)]])) = Inl KeyError"
  by (simp add: get_backup_gold_data_def py_sorted_def date_key_def)

text \<open>
  Other contents that the loader does not survive: a snapshot that is a JSON number is not
  iterable, a date that is not a string or not in ISO format is rejected by the sort key,
  dates of both kinds cannot be compared, and an exception of \<^verbatim>\<open>open\<close> or of the decoding of
  the file other than the two that are caught passes through.
\<close>

lemma backup_other_failures:
  "get_backup_gold_data iso_date (Inr (JInt 5)) = Inl TypeError"
  "get_backup_gold_data iso_date (Inr (JArr [JObj [(''date'', JInt 20240301)]])) = Inl TypeError"
  "get_backup_gold_data iso_date (Inr (JArr [JObj [(''date'', JStr ''March'')]]))
     = Inl ValueError"
  "get_backup_gold_data (\<lambda>s. if s = ''2024-03-01T00:00:00+05:30'' then Inr (Aware (1::nat))
                              else Inr (Naive 2))
     (Inr (JArr [JObj [(''date'', JStr ''2024-03-01T00:00:00+05:30'')],
                 JObj [(''date'', JStr ''2024-03-02'')]])) = Inl TypeError"
  "get_backup_gold_data iso_date (Inl OtherError) = Inl OtherError"
  by (simp_all add: get_backup_gold_data_def py_sorted_def date_key_def iso_date_def
      comparable_def)

section \<open>Properties of the live price fetcher\<close>

lemma sorted_le_last: "sorted xs \<Longrightarrow> x \<in> set xs \<Longrightarrow> x \<le> last xs"
  by (induction xs) auto

lemma keys_of_last:
  assumes "keys_of f xs = Inr ks" and "xs \<noteq> []"
  shows "f (last xs) = Inr (last ks)"
proof -
  from assms(1) have m: "map f xs = map Inr ks" by (simp add: keys_of_Inr_iff)
  then have "length xs = length ks" by (rule map_eq_imp_length_eq)
  with assms(2) have "ks \<noteq> []" by auto
  from m have "last (map f xs) = last (map Inr ks)" by simp
  with assms(2) \<open>ks \<noteq> []\<close> show ?thesis by (simp add: last_map)
qed

lemma try_live_price_failed: "try_live_price (Inl e) = None"
  by (simp add: try_live_price_def)

lemma fallback_to_backup:
  assumes "\<not> api_key_present GOLD_API_KEY \<or> try_live_price response = None"
  shows "get_live_gold_price fromisoformat GOLD_API_KEY response loaded =
     (case get_backup_gold_data fromisoformat loaded of Inl e \<Rightarrow> Inl e
      | Inr backup_data \<Rightarrow>
          if backup_data \<noteq> [] then
            (case getitem (last backup_data) ''price'' of Inl e \<Rightarrow> Inl e
             | Inr p \<Rightarrow> Inr (JObj [(''source'', JStr ''backup''),
                                   (''current_price_inr_per_gram'', p)]))
          else Inr (JObj [(''error'',
                 JStr ''Failed to fetch live gold price and backup is unavailable.'')]))"
  using assms by (auto simp: get_live_gold_price_def)

text \<open>
  C1, as the code has it. When no API credential is present or the live call fails (every
  failed call leaves the \<^verbatim>\<open>try\<close> block without a price), the fetcher falls back to the
  backup series that the loader returns. If the series is not empty and its last entry
  carries a price, the result is that price tagged \<open>source = backup\<close>, and the last entry is
  the latest-dated one. If the series is empty, the result is returned, not raised: a
  dictionary with the key \<open>error\<close> and without the key \<open>current_price_inr_per_gram\<close>.
  In both cases no exception is raised.
\<close>

theorem price_fallback_chain:
  assumes "\<not> api_key_present GOLD_API_KEY \<or> try_live_price response = None"
  shows "try_live_price (Inl e) = None
    \<and> (get_backup_gold_data fromisoformat loaded = Inr series \<and> series \<noteq> []
          \<and> getitem (last series) ''price'' = Inr p \<longrightarrow>
        get_live_gold_price fromisoformat GOLD_API_KEY response loaded
          = Inr (JObj [(''source'', JStr ''backup''), (''current_price_inr_per_gram'', p)])
        \<and> (\<exists>dates. keys_of (date_key fromisoformat) series = Inr dates
              \<and> date_key fromisoformat (last series) = Inr (last dates)
              \<and> comparable dates
              \<and> (\<forall>d \<in> set dates. instant d \<le> instant (last dates))))
    \<and> (get_backup_gold_data fromisoformat loaded = Inr [] \<longrightarrow>
        (\<exists>msg. get_live_gold_price fromisoformat GOLD_API_KEY response loaded
                  = Inr (JObj [(''error'', JStr msg)])
           \<and> getitem (JObj [(''error'', JStr msg)]) ''error'' = Inr (JStr msg)
           \<and> getitem (JObj [(''error'', JStr msg)]) ''current_price_inr_per_gram''
               = Inl KeyError))"
proof (intro conjI impI)
  show "try_live_price (Inl e) = None"
    by (rule try_live_price_failed)
next
  assume a: "get_backup_gold_data fromisoformat loaded = Inr series \<and> series \<noteq> []
          \<and> getitem (last series) ''price'' = Inr p"
  with fallback_to_backup [OF assms, of fromisoformat loaded]
  show "get_live_gold_price fromisoformat GOLD_API_KEY response loaded
          = Inr (JObj [(''source'', JStr ''backup''), (''current_price_inr_per_gram'', p)])"
    by simp
  from a have b: "get_backup_gold_data fromisoformat loaded = Inr series" and ne: "series \<noteq> []"
    by simp_all
  from backup_dates_sorted [OF b] obtain dates
    where d: "keys_of (date_key fromisoformat) series = Inr dates"
      and s: "sorted (map instant dates)" and c: "comparable dates"
    by blast
  from keys_of_last [OF d ne]
  have l: "date_key fromisoformat (last series) = Inr (last dates)" .
  from d have "map (date_key fromisoformat) series = map Inr dates"
    by (simp add: keys_of_Inr_iff)
  then have "length series = length dates" by (rule map_eq_imp_length_eq)
  with ne have dne: "dates \<noteq> []" by auto
  have "\<forall>d \<in> set dates. instant d \<le> instant (last dates)"
  proof
    fix x assume "x \<in> set dates"
    then have "instant x \<in> set (map instant dates)" by simp
    from sorted_le_last [OF s this] dne show "instant x \<le> instant (last dates)"
      by (simp add: last_map)
  qed
  with d l c show "\<exists>dates. keys_of (date_key fromisoformat) series = Inr dates
              \<and> date_key fromisoformat (last series) = Inr (last dates)
              \<and> comparable dates
              \<and> (\<forall>d \<in> set dates. instant d \<le> instant (last dates))"
    by blast
next
  assume "get_backup_gold_data fromisoformat loaded = Inr []"
  with fallback_to_backup [OF assms, of fromisoformat loaded]
  have "get_live_gold_price fromisoformat GOLD_API_KEY response loaded
          = Inr (JObj [(''error'',
                 JStr ''Failed to fetch live gold price and backup is unavailable.'')])"
    by simp
  moreover have "getitem (JObj [(''error'', JStr msg)]) ''error'' = Inr (JStr msg)" for msg
    by simp
  moreover have "getitem (JObj [(''error'', JStr msg)]) ''current_price_inr_per_gram''
               = Inl KeyError" for msg
    by simp
  ultimately show "\<exists>msg. get_live_gold_price fromisoformat GOLD_API_KEY response loaded
                  = Inr (JObj [(''error'', JStr msg)])
           \<and> getitem (JObj [(''error'', JStr msg)]) ''error'' = Inr (JStr msg)
           \<and> getitem (JObj [(''error'', JStr msg)]) ''current_price_inr_per_gram''
               = Inl KeyError"
    by (intro exI conjI)
qed

text \<open>
  Without a credential and with a failed request: the sample snapshot gives the price of
  2 March 2024, and a missing snapshot gives the error value.
\<close>

theorem price_fallback_chain_witness:
  "try_live_price (Inl OtherError) = None
   \<and> get_live_gold_price iso_date None (Inl OtherError) (Inr sample_snapshot)
       = Inr (JObj [(''source'', JStr ''backup''), (''current_price_inr_per_gram'', JInt 6150)])
   \<and> (\<exists>msg. get_live_gold_price iso_date None (Inl OtherError) (Inl FileNotFoundError)
                = Inr (JObj [(''error'', JStr msg)]))"
proof -
  have h: "\<not> api_key_present None \<or> try_live_price (Inl OtherError) = None"
    by (simp add: api_key_present_def)
  have p: "get_backup_gold_data iso_date (Inr sample_snapshot) = Inr sample_series
     \<and> sample_series \<noteq> [] \<and> getitem (last sample_series) ''price'' = Inr (JInt 6150)"
    by (simp add: sample_backup sample_series_def)
  have q: "get_backup_gold_data iso_date (Inl FileNotFoundError) = Inr []"
    by (rule backup_missing_or_malformed) simp
  from p price_fallback_chain [OF h, of OtherError iso_date "Inr sample_snapshot"
      sample_series "JInt 6150"]
  have a: "get_live_gold_price iso_date None (Inl OtherError) (Inr sample_snapshot)
       = Inr (JObj [(''source'', JStr ''backup''), (''current_price_inr_per_gram'', JInt 6150)])"
    by simp
  from q price_fallback_chain [OF h, of OtherError iso_date "Inl FileNotFoundError"]
  have b: "\<exists>msg. get_live_gold_price iso_date None (Inl OtherError) (Inl FileNotFoundError)
                = Inr (JObj [(''error'', JStr msg)])"
    by blast
  have t: "try_live_price (Inl OtherError) = None"
    by (simp add: try_live_price_def)
  from t a b show ?thesis by (intro conjI)
qed

text \<open>
  C1 as stated fails in its last part: without a credential and with a snapshot that is
  valid JSON but has an entry without a date, the \<open>KeyError\<close> of the loader passes
  through the fetcher, which has no handler around the fallback.
\<close>

theorem price_fallback_raises_counterexample:
  "get_live_gold_price iso_date None (Inl OtherError)
     (Inr (JArr [JObj [(''price'', JInt 6125)]])) = Inl KeyError"
  by (simp add: get_live_gold_price_def api_key_present_def get_backup_gold_data_def
      py_sorted_def date_key_def)

section \<open>Properties of the trend analyzer\<close>

lemma slice_from_trailing:
  assumes "1 \<le> period"
  shows "slice_from xs (- period) = trailing (nat period) xs"
  using assms by (auto simp: slice_from_def trailing_def Let_def max_def nat_diff_distrib')

lemma prices_of_entries:
  assumes "\<forall>entry \<in> set entries. \<exists>p. getitem entry ''price'' = Inr p"
  shows "prices_of entries = Inr (map (\<lambda>entry. projr (getitem entry ''price'')) entries)"
  using assms
proof (induction entries)
  case Nil
  then show ?case by simp
next
  case (Cons entry entries)
  then obtain p where "getitem entry ''price'' = Inr p" by auto
  with Cons show ?case by simp
qed

lemma trailing_nonempty: "xs \<noteq> [] \<Longrightarrow> 0 < k \<Longrightarrow> trailing k xs \<noteq> []"
  by (auto simp: trailing_def)

lemma set_trailing: "set (trailing k xs) \<subseteq> set xs"
  by (auto simp: trailing_def dest: in_set_dropD)

lemma trailing_whole: "trailing (length xs) xs = xs"
  by (simp add: trailing_def)

lemma positive_price:
  assumes "has_positive_price entry"
  shows "\<exists>p. getitem entry ''price'' = Inr p \<and> positive_number p"
  using assms by (auto simp: has_positive_price_def split: sum.splits)

lemma analyze_trend_recent:
  assumes "2 \<le> length history"
    and "prices_of (slice_from history (- period)) = Inr (s # r)"
  shows "analyze_trend history period = percent_expr (last (s # r)) s"
proof -
  from assms(1) have "history \<noteq> []" by auto
  with assms show ?thesis
    by (simp add: analyze_trend_def Let_def del: last.simps)
qed

text \<open>
  The window of the analyzer: for a period of at least 1, the trailing \<open>period\<close> entries.
\<close>

lemma analyze_trend_window:
  assumes len: "2 \<le> length history"
    and pos: "\<forall>entry \<in> set history. has_positive_price entry"
    and per: "1 \<le> period"
  shows "analyze_trend history period = percent_change (trailing (nat period) history)"
proof -
  let ?w = "trailing (nat period) history"
  let ?price = "\<lambda>entry. projr (getitem entry ''price'')"
  from len have ne: "history \<noteq> []" by auto
  with per have wne: "?w \<noteq> []" by (simp add: trailing_nonempty)
  from pos set_trailing [of "nat period" history]
  have wpos: "\<forall>entry \<in> set ?w. has_positive_price entry" by blast
  then have wprice: "\<forall>entry \<in> set ?w. \<exists>p. getitem entry ''price'' = Inr p"
    using positive_price by blast
  from wne obtain first rest where w: "?w = first # rest" by (cases ?w) auto
  from prices_of_entries [OF wprice]
  have "prices_of ?w = Inr (map ?price ?w)" .
  then have prices: "prices_of (slice_from history (- period))
      = Inr (?price first # map ?price rest)"
    by (simp add: slice_from_trailing [OF per] w)
  have "last (map ?price ?w) = ?price (last ?w)"
    using wne by (simp add: last_map)
  then have lst: "last (?price first # map ?price rest) = ?price (last ?w)"
    by (simp add: w)
  from wprice wne obtain pe where pe: "getitem (last ?w) ''price'' = Inr pe"
    using last_in_set by blast
  from wprice w obtain ps where ps: "getitem (hd ?w) ''price'' = Inr ps"
    by auto
  from analyze_trend_recent [OF len prices]
  have "analyze_trend history period = percent_expr (?price (last ?w)) (?price first)"
    by (simp only: lst)
  also have "\<dots> = percent_change ?w"
    using pe ps by (simp add: percent_change_def w)
  finally show ?thesis .
qed








lemma trend_examples:
  "analyze_trend [JObj [(''price'', JInt 100)], JObj [(''price'', JInt 110)]] 7
     = Inr (Finite 10)"
  "analyze_trend [JObj [(''price'', JInt 100)], JObj [(''price'', JInt 90)]] 7
     = Inr (Finite (- 10))"
  "analyze_trend [JObj [(''price'', JInt 8000)], JObj [(''price'', JInt 7614)]] 7
     = Inr (Finite (- (5432467050515661 / 1125899906842624)))"
  "analyze_trend [JObj [(''price'', JInt 8000)], JObj [(''price'', JInt 7614)]] 2
     = Inr (Finite (- (5432467050515661 / 1125899906842624)))"
  by (simp_all add: analyze_trend_def slice_from_def percent_expr_def py_sub_def
      py_truediv_def float_eval)

lemma sample_trend:
  "analyze_trend sample_series 7 = Inr (Finite (1845737552201023 / 2251799813685248))"
  "analyze_trend sample_series 3 = Inr (Finite (1845737552201023 / 2251799813685248))"
  "analyze_trend sample_series 2 = Inr (Finite (919101964769489 / 2251799813685248))"
  by (simp_all add: sample_series_def analyze_trend_def slice_from_def percent_expr_def
      py_sub_def py_truediv_def float_eval)

text \<open>
  An \<^verbatim>\<open>int\<close> price beyond the range of the floats: the division of the integers raises.
\<close>

lemma trend_overflow:
  "analyze_trend [JObj [(''price'', JInt 1)], JObj [(''price'', JInt (10 ^ 309))]] 7
     = Inl OverflowError"
  by (simp add: analyze_trend_def slice_from_def percent_expr_def py_sub_def
      py_truediv_def float_eval)



lemma digits_below_10: "k < 10 \<Longrightarrow> digits k = [digit_char k]"
  by (subst digits.simps) simp

lemma two_decimals:
  assumes "k < 100"
  shows "replicate (2 - length (digits k)) CHR ''0'' @ digits k
           = [digit_char (k div 10), digit_char (k mod 10)]"
proof (cases "k < 10")
  case True
  then show ?thesis by (simp add: digits_below_10 digit_chars)
next
  case False
  with assms have "k div 10 < 10" by simp
  then have "digits (k div 10) = [digit_char (k div 10)]" by (rule digits_below_10)
  with False have "digits k = [digit_char (k div 10), digit_char (k mod 10)]"
    by (subst digits.simps) simp
  then show ?thesis by simp
qed

text \<open>
  The format \<^verbatim>\<open>.2f\<close> of a finite value that is not negative: the digits of a whole number,
  a point and exactly two decimals, which together denote the value rounded to hundredths.
\<close>

lemma float_format_two:
  assumes "0 \<le> x"
  shows "\<exists>n d1 d2. d1 < 10 \<and> d2 < 10
           \<and> float_format 2 (Finite x) = digits n @ ''.'' @ [digit_char d1, digit_char d2]
           \<and> int (100 * n + 10 * d1 + d2) = round_half_even (x * 100)"
proof -
  define m where "m = nat (round_half_even (x * 100))"
  from assms have "0 \<le> round_half_even (x * 100)"
    by (intro round_half_even_nonneg) simp
  then have m: "int m = round_half_even (x * 100)" by (simp add: m_def)
  have frac: "replicate (2 - length (digits (m mod 100))) CHR ''0'' @ digits (m mod 100)
           = [digit_char (m mod 100 div 10), digit_char (m mod 100 mod 10)]"
    by (rule two_decimals) simp
  from assms have fmt: "float_format 2 (Finite x)
      = digits (m div 100) @ ''.'' @ [digit_char (m mod 100 div 10),
                                      digit_char (m mod 100 mod 10)]"
    using frac by (simp add: m_def Let_def)
  have sum: "100 * (m div 100) + 10 * (m mod 100 div 10) + m mod 100 mod 10 = m"
    by presburger
  have "m mod 100 div 10 < 10" "m mod 100 mod 10 < 10" by simp_all
  with fmt sum m show ?thesis
    by (intro exI [of _ "m div 100"] exI [of _ "m mod 100 div 10"]
        exI [of _ "m mod 100 mod 10"]) simp
qed

lemma tenth: "double (1 / 10) = Finite (3602879701896397 / 36028797018963968)"
  by (rule double_examples)

lemma trend_phrase_increased:
  assumes "value_of (double (1 / 10)) < change"
  shows "\<exists>n d1 d2. d1 < 10 \<and> d2 < 10
           \<and> int (100 * n + 10 * d1 + d2) = round_half_even (change * 100)
           \<and> trend_phrase (Finite change)
               = ''increased by '' @ digits n @ ''.'' @ [digit_char d1, digit_char d2] @ ''%''"
proof -
  from assms have "0 \<le> change" by (simp add: tenth)
  from float_format_two [OF this] obtain n d1 d2 where
    "d1 < 10" "d2 < 10"
    "float_format 2 (Finite change) = digits n @ ''.'' @ [digit_char d1, digit_char d2]"
    "int (100 * n + 10 * d1 + d2) = round_half_even (change * 100)"
    by blast
  with assms show ?thesis
    by (intro exI [of _ n] exI [of _ d1] exI [of _ d2])
      (simp add: trend_phrase_def tenth float_lt_def del: float_format.simps)
qed

lemma trend_phrase_decreased:
  assumes "change < - value_of (double (1 / 10))"
  shows "\<exists>n d1 d2. d1 < 10 \<and> d2 < 10
           \<and> int (100 * n + 10 * d1 + d2) = round_half_even (\<bar>change\<bar> * 100)
           \<and> trend_phrase (Finite change)
               = ''decreased by '' @ digits n @ ''.'' @ [digit_char d1, digit_char d2] @ ''%''"
proof -
  have "0 \<le> \<bar>change\<bar>" by simp
  from float_format_two [OF this] obtain n d1 d2 where
    "d1 < 10" "d2 < 10"
    "float_format 2 (Finite \<bar>change\<bar>) = digits n @ ''.'' @ [digit_char d1, digit_char d2]"
    "int (100 * n + 10 * d1 + d2) = round_half_even (\<bar>change\<bar> * 100)"
    by blast
  with assms show ?thesis
    by (intro exI [of _ n] exI [of _ d1] exI [of _ d2])
      (simp add: trend_phrase_def tenth float_lt_def del: float_format.simps)
qed

lemma trend_phrase_stable:
  assumes "\<not> value_of (double (1 / 10)) < change"
    and "\<not> change < - value_of (double (1 / 10))"
  shows "trend_phrase (Finite change) = ''been relatively stable''"
  using assms by (simp add: trend_phrase_def tenth float_lt_def)

lemma trend_phrase_not_finite:
  "trend_phrase NegZero = ''been relatively stable''"
  "trend_phrase NaN = ''been relatively stable''"
  "trend_phrase PosInf = ''increased by inf%''"
  "trend_phrase NegInf = ''decreased by inf%''"
  by (simp_all add: trend_phrase_def tenth float_lt_def)

lemma sample_phrase:
  "trend_phrase (Finite (1845737552201023 / 2251799813685248)) = ''increased by 0.82%''"
  "trend_phrase (Finite (- (5432467050515661 / 1125899906842624))) = ''decreased by 4.83%''"
  "trend_phrase (double (1 / 10)) = ''been relatively stable''"
  by (simp_all add: trend_phrase_def tenth float_lt_def round_half_even_def digits.simps
      digit_chars)

text \<open>
  C7. For a series that is not empty and whose two trends are computed, the text names the
  7-day trend and the 30-day trend, the latter over the whole series when it has fewer than
  30 points: for a series of at least 2 positive prices these are the changes over the
  trailing 7 points and over the trailing 30 points or the whole series. Each trend is
  rendered as exactly one of three phrasings: a change above 0.1 as "increased by", a change
  below -0.1 as "decreased by" with the absolute value, and any other change as "been
  relatively stable", where 0.1 is the float nearest to one tenth. The percentage is written
  by the format \<^verbatim>\<open>.2f\<close>: a finite change with exactly two decimals, the value rounded to
  hundredths, and an infinite change, the result of an overflow, as \<open>inf\<close>.
\<close>

theorem trend_text_phrasing:
  assumes "history \<noteq> []"
    and "analyze_trend history 7 = Inr short_term"
    and "analyze_trend history (if 30 \<le> length history then 30 else int (length history))
           = Inr long_term"
  shows "generate_trend_text history
           = Inr (''Gold prices have '' @ trend_phrase short_term
                  @ '' over the last 7 days and have '' @ trend_phrase long_term
                  @ '' over the last 30 days.'')
    \<and> (2 \<le> length history \<and> (\<forall>entry \<in> set history. has_positive_price entry) \<longrightarrow>
         percent_change (trailing 7 history) = Inr short_term
         \<and> percent_change (if length history < 30 then history else trailing 30 history)
             = Inr long_term)
    \<and> (\<forall>change.
         (value_of (double (1 / 10)) < change \<longrightarrow>
            (\<exists>n d1 d2. d1 < 10 \<and> d2 < 10
               \<and> int (100 * n + 10 * d1 + d2) = round_half_even (change * 100)
               \<and> trend_phrase (Finite change)
                   = ''increased by '' @ digits n @ ''.'' @ [digit_char d1, digit_char d2]
                     @ ''%''))
         \<and> (change < - value_of (double (1 / 10)) \<longrightarrow>
            (\<exists>n d1 d2. d1 < 10 \<and> d2 < 10
               \<and> int (100 * n + 10 * d1 + d2) = round_half_even (\<bar>change\<bar> * 100)
               \<and> trend_phrase (Finite change)
                   = ''decreased by '' @ digits n @ ''.'' @ [digit_char d1, digit_char d2]
                     @ ''%''))
         \<and> (\<not> value_of (double (1 / 10)) < change
              \<and> \<not> change < - value_of (double (1 / 10)) \<longrightarrow>
            trend_phrase (Finite change) = ''been relatively stable''))
    \<and> double (1 / 10) = Finite (3602879701896397 / 36028797018963968)
    \<and> trend_phrase NegZero = ''been relatively stable''
    \<and> trend_phrase NaN = ''been relatively stable''
    \<and> trend_phrase PosInf = ''increased by inf%''
    \<and> trend_phrase NegInf = ''decreased by inf%''"
proof (intro conjI impI allI)
  from assms show "generate_trend_text history
           = Inr (''Gold prices have '' @ trend_phrase short_term
                  @ '' over the last 7 days and have '' @ trend_phrase long_term
                  @ '' over the last 30 days.'')"
    by (simp add: generate_trend_text_def)
next
  assume a: "2 \<le> length history \<and> (\<forall>entry \<in> set history. has_positive_price entry)"
  then have "analyze_trend history 7 = percent_change (trailing (nat 7) history)"
    by (intro analyze_trend_window) simp_all
  with assms(2) show "percent_change (trailing 7 history) = Inr short_term"
    by simp
  show "percent_change (if length history < 30 then history else trailing 30 history)
          = Inr long_term"
  proof (cases "length history < 30")
    case True
    from a have "analyze_trend history (int (length history))
        = percent_change (trailing (nat (int (length history))) history)"
      by (intro analyze_trend_window) simp_all
    with True assms(3) show ?thesis by (simp add: trailing_whole)
  next
    case False
    from a have "analyze_trend history 30 = percent_change (trailing (nat 30) history)"
      by (intro analyze_trend_window) simp_all
    with False assms(3) show ?thesis by simp
  qed
next
  fix change :: real
  assume "value_of (double (1 / 10)) < change"
  then show "\<exists>n d1 d2. d1 < 10 \<and> d2 < 10
               \<and> int (100 * n + 10 * d1 + d2) = round_half_even (change * 100)
               \<and> trend_phrase (Finite change)
                   = ''increased by '' @ digits n @ ''.'' @ [digit_char d1, digit_char d2]
                     @ ''%''"
    by (rule trend_phrase_increased)
next
  fix change :: real
  assume "change < - value_of (double (1 / 10))"
  then show "\<exists>n d1 d2. d1 < 10 \<and> d2 < 10
               \<and> int (100 * n + 10 * d1 + d2) = round_half_even (\<bar>change\<bar> * 100)
               \<and> trend_phrase (Finite change)
                   = ''decreased by '' @ digits n @ ''.'' @ [digit_char d1, digit_char d2]
                     @ ''%''"
    by (rule trend_phrase_decreased)
next
  fix change :: real
  assume "\<not> value_of (double (1 / 10)) < change
            \<and> \<not> change < - value_of (double (1 / 10))"
  then show "trend_phrase (Finite change) = ''been relatively stable''"
    by (simp add: trend_phrase_stable)
next
  show "double (1 / 10) = Finite (3602879701896397 / 36028797018963968)"
    by (rule tenth)
  show "trend_phrase NegZero = ''been relatively stable''"
    "trend_phrase NaN = ''been relatively stable''"
    "trend_phrase PosInf = ''increased by inf%''"
    "trend_phrase NegInf = ''decreased by inf%''"
    by (rule trend_phrase_not_finite)+
qed

text \<open>
  The sample series of three prices, 6100, 6125 and 6150: both trends are its change of
  0.819672131147541 percent, written 0.82. The series of the prices 8000 and 7614: the
  change is the float -4.825, which lies below the number -4.825 and is written 4.83.
\<close>

theorem trend_text_phrasing_witness:
  "sample_series \<noteq> []
   \<and> analyze_trend sample_series 7 = Inr (Finite (1845737552201023 / 2251799813685248))
   \<and> generate_trend_text sample_series
       = Inr (''Gold prices have increased by 0.82% over the last 7 days ''
              @ ''and have increased by 0.82% over the last 30 days.'')
   \<and> analyze_trend [JObj [(''price'', JInt 8000)], JObj [(''price'', JInt 7614)]] 7
       = Inr (Finite (- (5432467050515661 / 1125899906842624)))
   \<and> generate_trend_text [JObj [(''price'', JInt 8000)], JObj [(''price'', JInt 7614)]]
       = Inr (''Gold prices have decreased by 4.83% over the last 7 days ''
              @ ''and have decreased by 4.83% over the last 30 days.'')"
proof -
  have a: "sample_series \<noteq> []" by (simp add: sample_series_def)
  have b: "analyze_trend sample_series 7
             = Inr (Finite (1845737552201023 / 2251799813685248))"
    by (rule sample_trend)
  have c: "analyze_trend sample_series
             (if 30 \<le> length sample_series then 30 else int (length sample_series))
           = Inr (Finite (1845737552201023 / 2251799813685248))"
    using sample_trend(2) by (simp add: sample_series_def)
  from trend_text_phrasing [OF a b c]
  have "generate_trend_text sample_series
           = Inr (''Gold prices have ''
                  @ trend_phrase (Finite (1845737552201023 / 2251799813685248))
                  @ '' over the last 7 days and have ''
                  @ trend_phrase (Finite (1845737552201023 / 2251799813685248))
                  @ '' over the last 30 days.'')"
    by (rule conjunct1)
  then have d: "generate_trend_text sample_series
       = Inr (''Gold prices have increased by 0.82% over the last 7 days ''
              @ ''and have increased by 0.82% over the last 30 days.'')"
    by (simp only: sample_phrase) simp
  let ?h = "[JObj [(''price'', JInt 8000)], JObj [(''price'', JInt 7614)]]"
  have a': "?h \<noteq> []" by simp
  have b': "analyze_trend ?h 7 = Inr (Finite (- (5432467050515661 / 1125899906842624)))"
    by (rule trend_examples)
  have c': "analyze_trend ?h (if 30 \<le> length ?h then 30 else int (length ?h))
           = Inr (Finite (- (5432467050515661 / 1125899906842624)))"
    using trend_examples(4) by simp
  from trend_text_phrasing [OF a' b' c']
  have "generate_trend_text ?h
           = Inr (''Gold prices have ''
                  @ trend_phrase (Finite (- (5432467050515661 / 1125899906842624)))
                  @ '' over the last 7 days and have ''
                  @ trend_phrase (Finite (- (5432467050515661 / 1125899906842624)))
                  @ '' over the last 30 days.'')"
    by (rule conjunct1)
  then have d': "generate_trend_text ?h
       = Inr (''Gold prices have decreased by 4.83% over the last 7 days ''
              @ ''and have decreased by 4.83% over the last 30 days.'')"
    by (simp only: sample_phrase) simp
  from a b d b' d' show ?thesis by (intro conjI)
qed

section \<open>Properties of the gold detector\<close>

text \<open>
  A character that matches a lower-case letter other than \<open>i\<close> is that letter or its
  upper-case letter, a word character.
\<close>

lemma literal_word_char:
  assumes "97 \<le> p" and "p \<le> 122" and "p \<noteq> 105" and "literal_matches p c"
  shows "is_word_char isalnum c"
  using assms by (auto simp: literal_matches_def is_word_char_def)

lemma match_literals:
  assumes "i \<le> length s \<or> w \<noteq> []"
  shows "match_atoms isalnum (map Lit w @ rest) s i \<longleftrightarrow>
     i + length w \<le> length s
     \<and> list_all2 literal_matches w (take (length w) (drop i s))
     \<and> match_atoms isalnum rest s (i + length w)"
  using assms
proof (induction w arbitrary: i)
  case Nil
  then show ?case by simp
next
  case (Cons c w)
  show ?case
  proof (cases "i < length s")
    case True
    then have "drop i s = s ! i # drop (Suc i) s"
      by (simp add: Cons_nth_drop_Suc)
    moreover from True have "Suc i \<le> length s \<or> w \<noteq> []" by simp
    ultimately show ?thesis using True Cons.IH [of "Suc i"] by auto
  next
    case False
    then show ?thesis by simp
  qed
qed

lemma occurrence_chars:
  assumes "i + length w \<le> length s"
    and "list_all2 literal_matches w (take (length w) (drop i s))"
    and "k < length w"
  shows "literal_matches (w ! k) (s ! (i + k))"
proof -
  from assms(2,3) have "literal_matches (w ! k) (take (length w) (drop i s) ! k)"
    by (rule list_all2_nthD)
  with assms(1,3) show ?thesis by simp
qed

lemma boundary_before:
  assumes "i < length s" and "is_word_char isalnum (s ! i)"
  shows "at_boundary isalnum s i \<longleftrightarrow> i = 0 \<or> \<not> is_word_char isalnum (s ! (i - 1))"
  using assms by (auto simp: at_boundary_def)

lemma boundary_after:
  assumes "0 < j" and "j \<le> length s" and "is_word_char isalnum (s ! (j - 1))"
  shows "at_boundary isalnum s j \<longleftrightarrow> j = length s \<or> \<not> is_word_char isalnum (s ! j)"
  using assms by (auto simp: at_boundary_def)

text \<open>
  An alternative \<^verbatim>\<open>\bword\b\<close> matches at a position exactly when the word occurs there as
  a whole word, for a word that begins and ends with a lower-case letter other than \<open>i\<close>.
\<close>

lemma match_whole_word:
  assumes ne: "w \<noteq> []"
    and first: "97 \<le> hd w \<and> hd w \<le> 122 \<and> hd w \<noteq> 105"
    and final: "97 \<le> last w \<and> last w \<le> 122 \<and> last w \<noteq> 105"
  shows "match_atoms isalnum (WordBoundary # map Lit w @ [WordBoundary]) s i
           \<longleftrightarrow> whole_word_at isalnum w s i"
proof (cases "i + length w \<le> length s
              \<and> list_all2 literal_matches w (take (length w) (drop i s))")
  case False
  with ne show ?thesis
    by (auto simp: match_literals whole_word_at_def)
next
  case True
  then have len: "i + length w \<le> length s"
    and eq: "list_all2 literal_matches w (take (length w) (drop i s))"
    by simp_all
  from ne have pos: "0 < length w" by simp
  from occurrence_chars [OF len eq pos]
  have "literal_matches (hd w) (s ! i)"
    using ne by (simp add: hd_conv_nth)
  with first have wi: "is_word_char isalnum (s ! i)"
    by (blast intro: literal_word_char)
  from pos have "length w - 1 < length w" by simp
  from occurrence_chars [OF len eq this]
  have "literal_matches (last w) (s ! (i + (length w - 1)))"
    using ne by (simp add: last_conv_nth)
  with final have "is_word_char isalnum (s ! (i + (length w - 1)))"
    by (blast intro: literal_word_char)
  moreover from pos have "i + (length w - 1) = i + length w - 1" by arith
  ultimately have wj: "is_word_char isalnum (s ! (i + length w - 1))"
    by simp
  from len pos have ilt: "i < length s" by arith
  from pos have jpos: "0 < i + length w" by simp
  have "match_atoms isalnum (WordBoundary # map Lit w @ [WordBoundary]) s i \<longleftrightarrow>
          at_boundary isalnum s i \<and> at_boundary isalnum s (i + length w)"
    using True ne by (simp add: match_literals)
  also have "\<dots> \<longleftrightarrow> (i = 0 \<or> \<not> is_word_char isalnum (s ! (i - 1)))
       \<and> (i + length w = length s \<or> \<not> is_word_char isalnum (s ! (i + length w)))"
    by (simp add: boundary_before [OF ilt wi] boundary_after [OF jpos len wj])
  also have "\<dots> \<longleftrightarrow> whole_word_at isalnum w s i"
    using True by (simp add: whole_word_at_def)
  finally show ?thesis .
qed

lemma gold_words:
  "match_atoms isalnum (WordBoundary # map Lit (codepoints ''gold'') @ [WordBoundary]) s i
     \<longleftrightarrow> whole_word_at isalnum (codepoints ''gold'') s i"
  "match_atoms isalnum
       (WordBoundary # map Lit (codepoints ''digital gold'') @ [WordBoundary]) s i
     \<longleftrightarrow> whole_word_at isalnum (codepoints ''digital gold'') s i"
  "match_atoms isalnum (WordBoundary # map Lit (codepoints ''xau'') @ [WordBoundary]) s i
     \<longleftrightarrow> whole_word_at isalnum (codepoints ''xau'') s i"
  by (rule match_whole_word; simp add: codepoints_def)+

text \<open>
  C6. The keyword check is a whole-word match, ignoring case, on \<open>gold\<close>, \<open>digital gold\<close> or
  \<open>xau\<close>: the regular expression search succeeds exactly when one of the three words occurs
  in the question as a whole word, whatever Unicode characters the question holds. "What is
  the GOLD rate today?" is a gold query and "How is silver doing?" is not.
\<close>

theorem is_gold_whole_word:
  "(is_gold_by_keyword isalnum question \<longleftrightarrow>
      whole_word_match isalnum ''gold'' question
      \<or> whole_word_match isalnum ''digital gold'' question
      \<or> whole_word_match isalnum ''xau'' question)
   \<and> is_gold_by_keyword isalnum (codepoints ''What is the GOLD rate today?'')
   \<and> \<not> is_gold_by_keyword isalnum (codepoints ''How is silver doing?'')"
proof (intro conjI)
  have "is_gold_by_keyword isalnum question \<longleftrightarrow>
      (\<exists>i \<in> set [0 ..< Suc (length question)].
         whole_word_at isalnum (codepoints ''gold'') question i
         \<or> whole_word_at isalnum (codepoints ''digital gold'') question i
         \<or> whole_word_at isalnum (codepoints ''xau'') question i)"
    unfolding is_gold_by_keyword_def re_search_def gold_pattern_def list_ex_iff
    by (simp only: list.set bex_simps gold_words insert_iff empty_iff) blast
  then show "is_gold_by_keyword isalnum question \<longleftrightarrow>
      whole_word_match isalnum ''gold'' question
      \<or> whole_word_match isalnum ''digital gold'' question
      \<or> whole_word_match isalnum ''xau'' question"
    unfolding whole_word_match_def list_ex_iff by blast
  show "is_gold_by_keyword isalnum (codepoints ''What is the GOLD rate today?'')"
    by code_simp
  show "\<not> is_gold_by_keyword isalnum (codepoints ''How is silver doing?'')"
    by code_simp
qed

text \<open>
  \<open>XAU\<close> in upper case between spaces is a whole word; \<open>gold\<close> inside \<open>golden\<close> is not,
  and neither is \<open>gold\<close> before the letter e with an acute accent (U+00E9), which is
  alphanumeric.
\<close>

theorem is_gold_whole_word_witness:
  "is_gold_by_keyword (\<lambda>c. c = 233) (codepoints ''Buy XAU now'')
   \<and> \<not> is_gold_by_keyword (\<lambda>c. c = 233) (codepoints ''golden_rule'')
   \<and> \<not> is_gold_by_keyword (\<lambda>c. c = 233) (codepoints ''gold'' @ [233])"
proof -
  have a: "whole_word_match (\<lambda>c. c = 233) ''xau'' (codepoints ''Buy XAU now'')"
    by code_simp
  have b: "\<not> whole_word_match (\<lambda>c. c = 233) ''gold'' (codepoints ''golden_rule'')"
    "\<not> whole_word_match (\<lambda>c. c = 233) ''digital gold'' (codepoints ''golden_rule'')"
    "\<not> whole_word_match (\<lambda>c. c = 233) ''xau'' (codepoints ''golden_rule'')"
    by code_simp+
  have b': "\<not> whole_word_match (\<lambda>c. c = 233) ''gold'' (codepoints ''gold'' @ [233])"
    "\<not> whole_word_match (\<lambda>c. c = 233) ''digital gold'' (codepoints ''gold'' @ [233])"
    "\<not> whole_word_match (\<lambda>c. c = 233) ''xau'' (codepoints ''gold'' @ [233])"
    by code_simp+
  from a is_gold_whole_word [of "\<lambda>c. c = 233" "codepoints ''Buy XAU now''"]
  have c: "is_gold_by_keyword (\<lambda>c. c = 233) (codepoints ''Buy XAU now'')" by simp
  from b is_gold_whole_word [of "\<lambda>c. c = 233" "codepoints ''golden_rule''"]
  have d: "\<not> is_gold_by_keyword (\<lambda>c. c = 233) (codepoints ''golden_rule'')" by simp
  from b' is_gold_whole_word [of "\<lambda>c. c = 233" "codepoints ''gold'' @ [233]"]
  have e: "\<not> is_gold_by_keyword (\<lambda>c. c = 233) (codepoints ''gold'' @ [233])" by simp
  from c d e show ?thesis by (intro conjI)
qed

end
